theory Spec2Isabelle
  imports Main "HOL-Library.AList" "HOL-Library.Char_ord" "HOL-Library.Extended_Nat"
    "HOL-Library.List_Lexorder" "HOL-Library.Product_Lexorder" "HOL-Library.Multiset"
begin

section \<open>Strings\<close>

text \<open>
  A string is the list of its code points, which are below 256. \<open>lower\<close> is
  \<^verbatim>\<open>str.lower()\<close> (the letters A-Z and the capital letters of Latin-1), \<open>strip\<close> is
  \<^verbatim>\<open>str.strip()\<close> (it removes the characters for which \<^verbatim>\<open>str.isspace()\<close> holds),
  \<open>contains sub s\<close> is \<^verbatim>\<open>sub in s\<close>.
\<close>

definition lower_char :: "char \<Rightarrow> char" where
  "lower_char c =
     (let n = of_char c :: nat
      in if (65 \<le> n \<and> n \<le> 90) \<or> (192 \<le> n \<and> n \<le> 222 \<and> n \<noteq> 215)
         then char_of (n + 32) else c)"

definition lower :: "string \<Rightarrow> string" where
  "lower s = map lower_char s"

definition is_space :: "char \<Rightarrow> bool" where
  "is_space c = (of_char c \<in> set [9, 10, 11, 12, 13, 28, 29, 30, 31, 32, 133, 160 :: nat])"

definition strip :: "string \<Rightarrow> string" where
  "strip s = rev (dropWhile is_space (rev (dropWhile is_space s)))"

fun starts_with :: "string \<Rightarrow> string \<Rightarrow> bool" where
  "starts_with [] s = True"
| "starts_with (p # ps) [] = False"
| "starts_with (p # ps) (c # cs) = (p = c \<and> starts_with ps cs)"

fun contains :: "string \<Rightarrow> string \<Rightarrow> bool" where
  "contains sub [] = (sub = [])"
| "contains sub (c # cs) = (starts_with sub (c # cs) \<or> contains sub cs)"

definition ends_with :: "string \<Rightarrow> string \<Rightarrow> bool" where
  "ends_with suffix s = starts_with (rev suffix) (rev s)"

fun join :: "string \<Rightarrow> string list \<Rightarrow> string" where
  "join sep [] = []"
| "join sep [x] = x"
| "join sep (x # y # ys) = x @ sep @ join sep (y # ys)"

section \<open>Cells, series and frames\<close>

text \<open>
  A cell of a table: a string, a number, or a missing value (NaN). The numbers are those of
  the library (64-bit integers and floats, and what the file reader delivers); their type
  \<open>'n\<close> and their arithmetic are left open, see the next section. A frame is the ordered
  list of its labelled columns; labels may repeat (two headers that differ only in
  surrounding blanks or in the synonym used become equal after stripping or renaming).
\<close>

datatype 'n cell = Str string | Num 'n | Blank

type_synonym 'n frame = "(string \<times> 'n cell list) list"

definition columns :: "'n frame \<Rightarrow> string list" where
  "columns df = map fst df"

definition nrows :: "'n frame \<Rightarrow> nat" where
  "nrows df = (case df of [] \<Rightarrow> 0 | c # _ \<Rightarrow> length (snd c))"

text \<open>\<^verbatim>\<open>df.columns = df.columns.str.strip()\<close>\<close>

definition strip_columns :: "'n frame \<Rightarrow> 'n frame" where
  "strip_columns df = map (\<lambda>(h, cs). (strip h, cs)) df"

text \<open>
  \<^verbatim>\<open>df[name]\<close>: a missing label raises KeyError, a label carried by exactly one
  column selects that series, a repeated label selects a sub-frame (on which the series
  operations of this program raise).
\<close>

datatype 'n item = KeyError | Series "'n cell list" | DataFrame "'n cell list list"

definition getitem :: "'n frame \<Rightarrow> string \<Rightarrow> 'n item" where
  "getitem df name =
     (case map snd (filter (\<lambda>c. fst c = name) df) of
        [] \<Rightarrow> KeyError
      | [s] \<Rightarrow> Series s
      | ss \<Rightarrow> DataFrame ss)"

text \<open>
  \<^verbatim>\<open>df[name] = series\<close>: every column carrying the label is replaced; a new label is
  appended as the last column.
\<close>

definition setitem :: "'n frame \<Rightarrow> string \<Rightarrow> 'n cell list \<Rightarrow> 'n frame" where
  "setitem df name s =
     (if name \<in> set (columns df)
      then map (\<lambda>c. if fst c = name then (name, s) else c) df
      else df @ [(name, s)])"

section \<open>The library\<close>

text \<open>
  Parsing and arithmetic are the library's, in 64-bit integers and floats. They are
  parameters of the model, collected in a record, so that every theorem below holds for
  whatever these operations compute:
  \<^item> \<open>to_numeric\<close>: \<^verbatim>\<open>pd.to_numeric\<close> on a series, one result per cell: \<open>Bad\<close> for a
    cell that is not numeric (\<^verbatim>\<open>errors='raise'\<close> raises when there is one,
    \<^verbatim>\<open>errors='coerce'\<close> makes it NaN), \<open>NaN\<close>, or a number;
  \<^item> \<open>to_datetime\<close>: \<^verbatim>\<open>pd.to_datetime\<close> on a series: \<open>None\<close> when it raises,
    otherwise a date or NaT (\<open>None\<close>) per cell;
  \<^item> \<open>num_str\<close>: the string form of a number (\<^verbatim>\<open>astype(str)\<close>);
  \<^item> \<open>fill_zero\<close>: the number that \<^verbatim>\<open>fillna(0)\<close> and \<^verbatim>\<open>fill_value=0\<close> write;
  \<^item> \<open>mul\<close>: the product of two numbers, \<open>None\<close> when it is NaN (an infinity times 0);
    \<open>mul_zero\<close>: the product of a number and the literal \<open>0\<close>;
  \<^item> \<open>series_sum\<close>: \<^verbatim>\<open>Series.sum()\<close> of the numbers of a series (\<open>None\<close> when the
    result is NaN); \<open>is_zero\<close>: the comparison \<^verbatim>\<open>== 0\<close>.
\<close>

datatype 'n parsed = Bad | NaN | Val 'n

record date =
  year :: nat
  month :: nat
  day :: nat

record 'n pandas =
  to_numeric :: "'n cell list \<Rightarrow> 'n parsed list"
  to_datetime :: "'n cell list \<Rightarrow> date option list option"
  num_str :: "'n \<Rightarrow> string"
  fill_zero :: 'n
  mul :: "'n \<Rightarrow> 'n \<Rightarrow> 'n option"
  mul_zero :: "'n \<Rightarrow> 'n option"
  series_sum :: "'n list \<Rightarrow> 'n option"
  is_zero :: "'n \<Rightarrow> bool"

text \<open>\<^verbatim>\<open>pd.to_numeric(s, errors='coerce').fillna(0)\<close>\<close>

definition fillna0 :: "'n pandas \<Rightarrow> 'n parsed \<Rightarrow> 'n" where
  "fillna0 P p = (case p of Val v \<Rightarrow> v | NaN \<Rightarrow> fill_zero P | Bad \<Rightarrow> fill_zero P)"

definition coerce_fillna :: "'n pandas \<Rightarrow> 'n cell list \<Rightarrow> 'n list" where
  "coerce_fillna P s = map (fillna0 P) (to_numeric P s)"

section \<open>Header normalizer\<close>

definition mapping :: "(string \<times> string) list" where
  "mapping =
    [(''price (ksh)'', ''price''), (''price(ksh)'', ''price''),
     (''total (ksh)'', ''total''), (''total(ksh)'', ''total''),
     (''price (usd)'', ''price''), (''price(usd)'', ''price''),
     (''total (usd)'', ''total''), (''total(usd)'', ''total''),
     (''product'', ''product''), (''item'', ''product''),
     (''description'', ''product''), (''name'', ''product''),
     (''quantity'', ''quantity''), (''qty'', ''quantity''), (''units'', ''quantity''),
     (''date'', ''date''), (''sale date'', ''date''),
     (''transaction date'', ''date''), (''order date'', ''date'')]"

definition rename :: "string \<Rightarrow> string" where
  "rename x = (case map_of mapping (lower x) of Some y \<Rightarrow> y | None \<Rightarrow> lower x)"

definition standardize_column_names :: "'n frame \<Rightarrow> 'n frame" where
  "standardize_column_names df = map (\<lambda>(h, cs). (rename (strip h), cs)) df"

section \<open>Schema validator\<close>

definition required :: "string list" where
  "required = [''date'', ''product'', ''quantity'']"

definition possible_names :: "(string \<times> string list) list" where
  "possible_names =
    [(''date'', [''date'', ''sale date'', ''transaction date'', ''order date'']),
     (''product'', [''product'', ''item'', ''description'', ''name'']),
     (''quantity'', [''quantity'', ''qty'', ''units''])]"

text \<open>The inner loop: the first column, in column order, whose lowercased label is a candidate.\<close>

fun first_match :: "string list \<Rightarrow> string list \<Rightarrow> string option" where
  "first_match candidates [] = None"
| "first_match candidates (col # cols) =
     (if lower col \<in> set candidates then Some col else first_match candidates cols)"

text \<open>The outer loop builds the dictionary \<open>found\<close>, as an association list.\<close>

fun find_columns :: "(string \<times> string list) list \<Rightarrow> string list \<Rightarrow> (string \<times> string) list" where
  "find_columns [] cols = []"
| "find_columns ((std, candidates) # rest) cols =
     (case first_match candidates cols of
        Some col \<Rightarrow> (std, col) # find_columns rest cols
      | None \<Rightarrow> find_columns rest cols)"

definition has_price_or_total :: "string list \<Rightarrow> bool" where
  "has_price_or_total cols =
     list_ex (\<lambda>col. contains ''price'' (lower col) \<or> contains ''total'' (lower col)) cols"

text \<open>
  The \<^verbatim>\<open>try\<close> block: \<open>True\<close> when neither call raises. A repeated label hands a
  sub-frame to the parser, which raises; the bare \<^verbatim>\<open>except\<close> catches everything.
\<close>

definition date_parses :: "'n pandas \<Rightarrow> 'n frame \<Rightarrow> string \<Rightarrow> bool" where
  "date_parses P df col =
     (case getitem df col of Series s \<Rightarrow> to_datetime P s \<noteq> None | _ \<Rightarrow> False)"

definition quantity_parses :: "'n pandas \<Rightarrow> 'n frame \<Rightarrow> string \<Rightarrow> bool" where
  "quantity_parses P df col =
     (case getitem df col of Series s \<Rightarrow> Bad \<notin> set (to_numeric P s) | _ \<Rightarrow> False)"

definition validate_dataframe :: "'n pandas \<Rightarrow> 'n frame \<Rightarrow> bool \<times> string" where
  "validate_dataframe P df0 =
     (let df = strip_columns df0;
          found = find_columns possible_names (columns df)
      in if length found < 3
         then (False, ''Missing required columns: '' @
                 join '', '' (filter (\<lambda>k. k \<notin> set (map fst found)) required))
         else if \<not> has_price_or_total (columns df)
         then (False, ''Missing price or total column'')
         else (case (map_of found ''date'', map_of found ''quantity'') of
                 (Some dc, Some qc) \<Rightarrow>
                   if date_parses P df dc \<and> quantity_parses P df qc
                   then (True, [])
                   else (False, ''Invalid date or quantity format'')
               | _ \<Rightarrow> (False, ''Invalid date or quantity format'')))"

section \<open>Currency detector\<close>

definition detect_currency :: "'n frame \<Rightarrow> string" where
  "detect_currency df =
     (if list_ex (\<lambda>c. contains ''ksh'' c) (map lower (columns df)) then ''KSH'' else ''USD'')"

section \<open>Type coercer\<close>

text \<open>
  \<^verbatim>\<open>.astype(str).str.replace(r'[\$,]', '', regex=True)\<close> followed by
  \<^verbatim>\<open>pd.to_numeric(..., errors='coerce').fillna(0)\<close>. The string form of a string cell is
  the string, that of a number is the library's, that of a missing value is \<open>nan\<close>. The
  replacement deletes every \<open>$\<close> and every comma of the string.
\<close>

definition cell_str :: "'n pandas \<Rightarrow> 'n cell \<Rightarrow> string" where
  "cell_str P c = (case c of Str s \<Rightarrow> s | Num v \<Rightarrow> num_str P v | Blank \<Rightarrow> ''nan'')"

definition strip_money :: "string \<Rightarrow> string" where
  "strip_money s = filter (\<lambda>c. c \<noteq> CHR ''$'' \<and> c \<noteq> CHR '','') s"

definition money_strings :: "'n pandas \<Rightarrow> 'n cell list \<Rightarrow> 'n cell list" where
  "money_strings P s = map (\<lambda>c. Str (strip_money (cell_str P c))) s"

definition money_values :: "'n pandas \<Rightarrow> 'n cell list \<Rightarrow> 'n list" where
  "money_values P s = coerce_fillna P (money_strings P s)"

text \<open>\<^verbatim>\<open>next((c for c in df.columns if sub in c), None)\<close>\<close>

definition first_containing :: "string \<Rightarrow> 'n frame \<Rightarrow> string option" where
  "first_containing sub df = find (contains sub) (columns df)"

text \<open>Lines 382-385: one step for the price column, one for the total column.\<close>

definition parse_money_column ::
  "'n pandas \<Rightarrow> string option \<Rightarrow> string \<Rightarrow> 'n frame \<Rightarrow> 'n frame option" where
  "parse_money_column P src target df =
     (case src of
        None \<Rightarrow> Some df
      | Some col \<Rightarrow>
          (case getitem df col of
             Series s \<Rightarrow> Some (setitem df target (map Num (money_values P s)))
           | _ \<Rightarrow> None))"

text \<open>
  \<^verbatim>\<open>df['total'].sum() == 0\<close>: the sum skips missing values; a NaN sum is not equal to 0.
  The column summed here has just been assigned numbers.
\<close>

definition numbers :: "'n cell list \<Rightarrow> 'n list" where
  "numbers s = List.map_filter (\<lambda>c. case c of Num v \<Rightarrow> Some v | _ \<Rightarrow> None) s"

definition sum_is_zero :: "'n pandas \<Rightarrow> 'n list \<Rightarrow> bool" where
  "sum_is_zero P vs = (case series_sum P vs of Some x \<Rightarrow> is_zero P x | None \<Rightarrow> False)"

text \<open>
  The product of two cells of numeric columns; a NaN product is a missing value. The
  columns multiplied here have just been assigned numbers.
\<close>

definition product_cell :: "'n option \<Rightarrow> 'n cell" where
  "product_cell r = (case r of Some v \<Rightarrow> Num v | None \<Rightarrow> Blank)"

definition mul_cell :: "'n pandas \<Rightarrow> 'n cell \<Rightarrow> 'n cell \<Rightarrow> 'n cell" where
  "mul_cell P a b = (case (a, b) of (Num x, Num y) \<Rightarrow> product_cell (mul P x y) | _ \<Rightarrow> Blank)"

definition mul_zero_cell :: "'n pandas \<Rightarrow> 'n cell \<Rightarrow> 'n cell" where
  "mul_zero_cell P a = (case a of Num x \<Rightarrow> product_cell (mul_zero P x) | _ \<Rightarrow> Blank)"

text \<open>Line 388: \<^verbatim>\<open>df['total'] = df['quantity'] * df.get('price', 0)\<close>\<close>

definition compute_total :: "'n pandas \<Rightarrow> 'n frame \<Rightarrow> 'n frame option" where
  "compute_total P df =
     (case getitem df ''quantity'' of
        Series q \<Rightarrow>
          (case getitem df ''price'' of
             KeyError \<Rightarrow> Some (setitem df ''total'' (map (mul_zero_cell P) q))
           | Series p \<Rightarrow> Some (setitem df ''total'' (map2 (mul_cell P) q p))
           | DataFrame _ \<Rightarrow> None)
      | _ \<Rightarrow> None)"

text \<open>Lines 387-388. The sum of a sub-frame is a series, whose truth value raises.\<close>

definition fill_total :: "'n pandas \<Rightarrow> 'n frame \<Rightarrow> 'n frame option" where
  "fill_total P df =
     (if ''total'' \<notin> set (columns df) then compute_total P df
      else (case getitem df ''total'' of
              Series t \<Rightarrow> if sum_is_zero P (numbers t) then compute_total P df else Some df
            | _ \<Rightarrow> None))"

text \<open>\<^verbatim>\<open>.dt.strftime('%Y-%m-%d')\<close>; NaT becomes a missing value.\<close>

definition digit_char :: "nat \<Rightarrow> char" where
  "digit_char n = ''0123456789'' ! (n mod 10)"

definition strftime_ymd :: "date \<Rightarrow> string" where
  "strftime_ymd d =
     [digit_char (year d div 1000), digit_char (year d div 100),
      digit_char (year d div 10), digit_char (year d)] @ ''-'' @
     [digit_char (month d div 10), digit_char (month d)] @ ''-'' @
     [digit_char (day d div 10), digit_char (day d)]"

definition date_cell :: "date option \<Rightarrow> 'n cell" where
  "date_cell d = (case d of None \<Rightarrow> Blank | Some x \<Rightarrow> Str (strftime_ymd x))"

definition format_dates :: "'n pandas \<Rightarrow> 'n frame \<Rightarrow> 'n frame option" where
  "format_dates P df =
     (case getitem df ''date'' of
        Series s \<Rightarrow>
          (case to_datetime P s of
             None \<Rightarrow> None
           | Some ds \<Rightarrow> Some (setitem df ''date'' (map date_cell ds)))
      | _ \<Rightarrow> None)"

text \<open>
  Lines 378-390 on the renamed frame; \<open>None\<close> is an exception, which the handler at
  line 411 turns into the response \<open>Processing failed\<close>.
\<close>

definition coerce :: "'n pandas \<Rightarrow> 'n frame \<Rightarrow> 'n frame option" where
  "coerce P df =
     (case getitem df ''quantity'' of
        Series q \<Rightarrow>
          (let df1 = setitem df ''quantity'' (map Num (coerce_fillna P q));
               price_col = first_containing ''price'' df1;
               total_col = first_containing ''total'' df1
           in Option.bind (parse_money_column P price_col ''price'' df1) (\<lambda>df2.
              Option.bind (parse_money_column P total_col ''total'' df2) (\<lambda>df3.
              Option.bind (fill_total P df3) (format_dates P))))
      | _ \<Rightarrow> None)"

section \<open>The upload route\<close>

text \<open>
  A stored upload (the id and the upload date are assigned by the database).
  \<open>data\<close> is \<^verbatim>\<open>df.to_dict(orient='records')\<close>: one dictionary per row, as an
  association list in insertion order; where a label repeats, the last column carrying it
  wins. A field is read with \<^const>\<open>map_of\<close>. A missing value is stored as it is: the
  JSON column of the default SQLite database takes NaN.
\<close>

type_synonym 'n row_dict = "(string \<times> 'n cell) list"

definition dict :: "(string \<times> 'n cell) list \<Rightarrow> 'n row_dict" where
  "dict kvs = fold (\<lambda>(k, v). AList.update k v) kvs []"

record 'n user_upload =
  user_id :: nat
  filename :: string
  data :: "'n row_dict list"
  currency :: string

definition to_dict :: "'n frame \<Rightarrow> 'n row_dict list" where
  "to_dict df = map (\<lambda>i. dict (map (\<lambda>(h, cs). (h, cs ! i)) df)) [0..<nrows df]"

record 'n stats =
  total_sales :: "'n option"
  total_products :: nat
  stats_currency :: string

datatype 'n response = Error string nat | Success "'n stats"

text \<open>
  The request as the route sees it: the session's user, the name of the uploaded file, and
  what \<^verbatim>\<open>pd.read_excel\<close>/\<^verbatim>\<open>pd.read_csv\<close> make of its content (\<open>None\<close> when
  they raise).
\<close>

record 'n upload_request =
  session_user_id :: "nat option"
  file_name :: "string option"
  file_frame :: "'n frame option"

text \<open>
  The response built after the commit (the \<open>time_period\<close> entry is left out).
  \<^verbatim>\<open>int(df['product'].nunique())\<close> raises when the label \<open>product\<close> repeats.
\<close>

definition nunique :: "'n cell list \<Rightarrow> nat" where
  "nunique s = length (remdups (filter (\<lambda>c. c \<noteq> Blank) s))"

definition upload_stats :: "'n pandas \<Rightarrow> 'n frame \<Rightarrow> string \<Rightarrow> 'n stats option" where
  "upload_stats P df cur =
     (case (getitem df ''total'', getitem df ''product'') of
        (Series t, Series p) \<Rightarrow>
          Some \<lparr>total_sales = series_sum P (numbers t), total_products = nunique p,
                stats_currency = cur\<rparr>
      | _ \<Rightarrow> None)"

definition upload_file ::
  "'n pandas \<Rightarrow> 'n upload_request \<Rightarrow> 'n user_upload list
     \<Rightarrow> 'n response \<times> 'n user_upload list" where
  "upload_file P req store =
     (case session_user_id req of
        None \<Rightarrow> (Error ''Unauthorized'' 401, store)
      | Some uid \<Rightarrow>
     (case file_name req of
        None \<Rightarrow> (Error ''No file selected'' 400, store)
      | Some fname \<Rightarrow>
     if fname = [] then (Error ''No file selected'' 400, store)
     else if \<not> (ends_with ''.xlsx'' (lower fname) \<or> ends_with ''.csv'' (lower fname))
     then (Error ''Invalid file type'' 400, store)
     else
     (case file_frame req of
        None \<Rightarrow> (Error ''Processing failed'' 500, store)
      | Some raw \<Rightarrow>
     (let df = strip_columns raw;
          (is_valid, msg) = validate_dataframe P df
      in if \<not> is_valid then (Error msg 400, store)
         else
         (let cur = detect_currency df;
              df' = standardize_column_names df
          in if \<not> list_all (\<lambda>col. col \<in> set (columns df')) [''date'', ''product'', ''quantity'']
             then (Error ''Column mapping failed'' 400, store)
             else
             (case coerce P df' of
                None \<Rightarrow> (Error ''Processing failed'' 500, store)
              | Some out \<Rightarrow>
                 (let store' = store @
                        [\<lparr>user_id = uid, filename = fname, data = to_dict out, currency = cur\<rparr>]
                  in case upload_stats P out cur of
                       None \<Rightarrow> (Error ''Processing failed'' 500, store')
                     | Some st \<Rightarrow> (Success st, store'))))))))"

section \<open>Chart generation\<close>

text \<open>
  The grouping operations of the library, parameters like the arithmetic:
  \<^item> \<open>label_of\<close>: the group key of a product cell, \<open>None\<close> for a missing value;
  \<^item> \<open>group_sum\<close>: the sum that \<^verbatim>\<open>groupby(...).sum()\<close> forms of the values of one
    group (NaN values, \<open>None\<close>, among them; the result may be NaN);
  \<^item> \<open>sort_values_asc\<close>, \<open>sort_values_desc\<close>: \<^verbatim>\<open>Series.sort_values\<close> with its
    default sort, which leaves the order among equal values open.

  Rendering (figure, plot, annotations, \<^verbatim>\<open>savefig\<close>) is a parameter too, one function per
  chart; it gets the currency code and the series and yields the image, or \<open>None\<close> when
  it raises.
\<close>

record ('k, 'n) groupby =
  label_of :: "'n cell \<Rightarrow> 'k option"
  group_sum :: "'n option list \<Rightarrow> 'n option"
  sort_values_asc :: "('k \<times> 'n option) list \<Rightarrow> ('k \<times> 'n option) list"
  sort_values_desc :: "('k \<times> 'n option) list \<Rightarrow> ('k \<times> 'n option) list"

record ('k, 'n, 'img) renderer =
  plot_products :: "string \<Rightarrow> nat \<Rightarrow> ('k \<times> 'n option) list \<Rightarrow> 'img option"
  plot_trend :: "string \<Rightarrow> ((nat \<times> nat) \<times> 'n option) list \<Rightarrow> 'img option"
  plot_share :: "('k \<times> 'n option) list \<Rightarrow> 'img option"
  plot_top :: "('k \<times> 'n option) list \<Rightarrow> 'img option"
  plot_weekdays :: "string \<Rightarrow> (string \<times> 'n option) list \<Rightarrow> 'img option"

text \<open>
  \<^verbatim>\<open>pd.DataFrame(upload.data)\<close>, as the callers of \<^verbatim>\<open>generate_charts\<close> build it:
  the columns are the keys of the rows in the order in which they are first met; a row
  without a key has a missing value there.
\<close>

definition first_seen :: "'a list \<Rightarrow> 'a list" where
  "first_seen xs = rev (remdups (rev xs))"

definition data_frame :: "'n row_dict list \<Rightarrow> 'n frame" where
  "data_frame rows =
     map (\<lambda>k. (k, map (\<lambda>r. case map_of r k of Some c \<Rightarrow> c | None \<Rightarrow> Blank) rows))
       (first_seen (concat (map (map fst) rows)))"

text \<open>
  The frame after the coercion prelude (lines 134-144): per row a date or NaT, a product
  key or a missing value, a quantity, a price, and a total or NaN.
\<close>

record ('k, 'n) sale =
  r_date :: "date option"
  r_product :: "'k option"
  r_quantity :: 'n
  r_price :: 'n
  r_total :: "'n option"

text \<open>\<^verbatim>\<open>pd.to_numeric(s, errors='coerce')\<close> without \<^verbatim>\<open>fillna\<close>.\<close>

definition coerce_nan :: "'n parsed \<Rightarrow> 'n option" where
  "coerce_nan p = (case p of Val v \<Rightarrow> Some v | NaN \<Rightarrow> None | Bad \<Rightarrow> None)"

text \<open>
  Lines 134-144; \<open>None\<close> when a column is absent or the dates do not parse: the handler
  at line 219 then returns no charts. (The product column is first read at line 162; its
  absence raises there, with the same result.)
\<close>

definition chart_frame ::
  "'n pandas \<Rightarrow> ('k, 'n) groupby \<Rightarrow> 'n row_dict list \<Rightarrow> ('k, 'n) sale list option" where
  "chart_frame P G rows =
     (let df = data_frame rows
      in case (getitem df ''date'', getitem df ''quantity'', getitem df ''price'',
               getitem df ''total'', getitem df ''product'') of
           (Series dc, Series qc, Series pc, Series tc, Series prc) \<Rightarrow>
             (case to_datetime P dc of
                None \<Rightarrow> None
              | Some ds \<Rightarrow>
                 (let q = coerce_fillna P qc;
                      p = coerce_fillna P pc;
                      t = map coerce_nan (to_numeric P tc);
                      t' = (if list_all (\<lambda>x. x = None) t \<or>
                               list_all (\<lambda>x. case x of Some v \<Rightarrow> is_zero P v | None \<Rightarrow> False) t
                            then map2 (mul P) q p else t)
                  in Some (map (\<lambda>(d, k, q, p, t).
                             \<lparr>r_date = d, r_product = k, r_quantity = q, r_price = p, r_total = t\<rparr>)
                           (zip ds (zip (map (label_of G) prc) (zip q (zip p t')))))))
         | _ \<Rightarrow> None)"

text \<open>
  \<^verbatim>\<open>df.groupby(key)[col].sum()\<close>: rows with a missing key are dropped, the groups come
  in ascending order of the key.
\<close>

definition group_keys :: "('r \<Rightarrow> 'k::linorder option) \<Rightarrow> 'r list \<Rightarrow> 'k list" where
  "group_keys key df = sort (remdups (List.map_filter key df))"

definition groupby_sum ::
  "('j, 'n) groupby \<Rightarrow> ('r \<Rightarrow> 'k::linorder option) \<Rightarrow> ('r \<Rightarrow> 'n option) \<Rightarrow> 'r list
     \<Rightarrow> ('k \<times> 'n option) list" where
  "groupby_sum G key val df =
     map (\<lambda>k. (k, group_sum G (map val (filter (\<lambda>r. key r = Some k) df)))) (group_keys key df)"

text \<open>\<^verbatim>\<open>.dt.to_period('M')\<close>: year and month, ordered chronologically.\<close>

definition to_period_M :: "date \<Rightarrow> nat \<times> nat" where
  "to_period_M d = (year d, month d)"

text \<open>\<^verbatim>\<open>.dt.day_name()\<close>, through the day number of the proleptic Gregorian calendar.\<close>

definition days_from_civil :: "date \<Rightarrow> int" where
  "days_from_civil d =
     (let m = int (month d);
          y = int (year d) - (if m \<le> 2 then 1 else 0);
          era = y div 400;
          yoe = y - era * 400;
          doy = (153 * (if m > 2 then m - 3 else m + 9) + 2) div 5 + int (day d) - 1;
          doe = yoe * 365 + yoe div 4 - yoe div 100 + doy
      in era * 146097 + doe - 719468)"

definition weekday_order :: "string list" where
  "weekday_order =
     [''Monday'', ''Tuesday'', ''Wednesday'', ''Thursday'', ''Friday'', ''Saturday'', ''Sunday'']"

definition day_name :: "date \<Rightarrow> string" where
  "day_name d = weekday_order ! nat ((days_from_civil d + 3) mod 7)"

text \<open>Line 163.\<close>

definition sales_by_product :: "('k::linorder, 'n) groupby \<Rightarrow> ('k, 'n) sale list \<Rightarrow> ('k \<times> 'n option) list" where
  "sales_by_product G df = sort_values_asc G (groupby_sum G r_product r_total df)"

text \<open>Line 175.\<close>

definition monthly_sales :: "('k, 'n) groupby \<Rightarrow> ('k, 'n) sale list \<Rightarrow> ((nat \<times> nat) \<times> 'n option) list" where
  "monthly_sales G df = groupby_sum G (\<lambda>r. map_option to_period_M (r_date r)) r_total df"

text \<open>Line 187.\<close>

definition product_share :: "('k::linorder, 'n) groupby \<Rightarrow> ('k, 'n) sale list \<Rightarrow> ('k \<times> 'n option) list" where
  "product_share G df = groupby_sum G r_product r_total df"

text \<open>
  The numbers under the reverse of their order, to sort by descending value.
\<close>

datatype 'a desc = Desc 'a

instantiation desc :: (linorder) linorder
begin

definition less_eq_desc :: "'a desc \<Rightarrow> 'a desc \<Rightarrow> bool" where
  "less_eq_desc x y = (case (x, y) of (Desc a, Desc b) \<Rightarrow> b \<le> a)"

definition less_desc :: "'a desc \<Rightarrow> 'a desc \<Rightarrow> bool" where
  "less_desc x y = (case (x, y) of (Desc a, Desc b) \<Rightarrow> b < a)"

instance
  by standard (auto simp: less_eq_desc_def less_desc_def split: desc.splits)

end

text \<open>
  \<^verbatim>\<open>Series.nlargest(n)\<close> with the default \<^verbatim>\<open>keep='first'\<close>. A series of at most
  \<open>n\<close> entries is sorted by \<^verbatim>\<open>sort_values(ascending=False)\<close> and cut. Of a longer
  series the entries that are numbers are sorted by descending value, entries of equal
  value staying in the order they have in the series, the NaN entries follow, and the first
  \<open>n\<close> are kept.
\<close>

definition nlargest ::
  "('k, 'n::linorder) groupby \<Rightarrow> nat \<Rightarrow> ('k \<times> 'n option) list \<Rightarrow> ('k \<times> 'n option) list" where
  "nlargest G n s =
     (if n \<ge> length s then take n (sort_values_desc G s)
      else take n
        (map (\<lambda>(k, v). (k, Some v))
           (sort_key (\<lambda>(k, v). Desc v) (List.map_filter (\<lambda>(k, v). map_option (Pair k) v) s))
         @ filter (\<lambda>(k, v). v = None) s))"

text \<open>Line 195.\<close>

definition top_qty :: "('k::linorder, 'n::linorder) groupby \<Rightarrow> ('k, 'n) sale list \<Rightarrow> ('k \<times> 'n option) list" where
  "top_qty G df = nlargest G 8 (groupby_sum G r_product (\<lambda>r. Some (r_quantity r)) df)"

text \<open>\<^verbatim>\<open>.reindex(order, fill_value=0)\<close>\<close>

definition reindex :: "'n pandas \<Rightarrow> 'k list \<Rightarrow> ('k \<times> 'n option) list \<Rightarrow> ('k \<times> 'n option) list" where
  "reindex P labels s =
     map (\<lambda>l. (l, case map_of s l of Some v \<Rightarrow> v | None \<Rightarrow> Some (fill_zero P))) labels"

text \<open>Line 208.\<close>

definition weekday_sales :: "'n pandas \<Rightarrow> ('k, 'n) groupby \<Rightarrow> ('k, 'n) sale list \<Rightarrow> (string \<times> 'n option) list" where
  "weekday_sales P G df =
     reindex P weekday_order (groupby_sum G (\<lambda>r. map_option day_name (r_date r)) r_total df)"

text \<open>
  \<^verbatim>\<open>generate_charts\<close> on the stored rows of an upload: the five charts by name, or no
  chart at all when anything inside the \<^verbatim>\<open>try\<close> block raises. The first chart's
  figure is sized by the number of distinct product values.
\<close>

definition generate_charts ::
  "'n pandas \<Rightarrow> ('k::linorder, 'n::linorder) groupby \<Rightarrow> ('k, 'n, 'img) renderer
     \<Rightarrow> 'n row_dict list \<Rightarrow> string \<Rightarrow> (string \<times> 'img) list" where
  "generate_charts P G R rows cur =
     (case chart_frame P G rows of
        None \<Rightarrow> []
      | Some df \<Rightarrow>
     (case plot_products R cur (length (remdups (map r_product df))) (sales_by_product G df) of
        None \<Rightarrow> []
      | Some c1 \<Rightarrow>
     (case plot_trend R cur (monthly_sales G df) of
        None \<Rightarrow> []
      | Some c2 \<Rightarrow>
     (case plot_share R (product_share G df) of
        None \<Rightarrow> []
      | Some c3 \<Rightarrow>
     (case plot_top R (top_qty G df) of
        None \<Rightarrow> []
      | Some c4 \<Rightarrow>
     (case plot_weekdays R cur (weekday_sales P G df) of
        None \<Rightarrow> []
      | Some c5 \<Rightarrow>
          [(''sales_by_product'', c1), (''sales_trend'', c2), (''revenue_distribution'', c3),
           (''top_products_qty'', c4), (''weekday_sales'', c5)]))))))"

section \<open>A concrete library for the examples\<close>

text \<open>
  Stand-ins for the library on the inputs of the examples below. The numbers are the
  natural numbers and infinity; on the small values used there the exact operations agree
  with the library's. A non-empty string of decimal digits parses to its value, \<open>inf\<close> to
  infinity, \<open>nan\<close> to NaN, and every other string is rejected; the product of infinity
  and 0 is NaN. A series of \<open>YYYY-MM-DD\<close> strings and missing values parses to dates and
  NaT, and any other series raises.
\<close>

definition digit_value :: "char \<Rightarrow> nat option" where
  "digit_value c = map_of (zip ''0123456789'' [0, 1, 2, 3, 4, 5, 6, 7, 8, 9]) c"

fun digits_value :: "nat \<Rightarrow> string \<Rightarrow> nat option" where
  "digits_value acc [] = Some acc"
| "digits_value acc (c # cs) =
     (case digit_value c of None \<Rightarrow> None | Some d \<Rightarrow> digits_value (10 * acc + d) cs)"

function decimal :: "nat \<Rightarrow> string" where
  "decimal n = (if n < 10 then [digit_char n] else decimal (n div 10) @ [digit_char n])"
  by pat_completeness auto
termination
  by (relation "measure id") auto

definition std_num_str :: "enat \<Rightarrow> string" where
  "std_num_str v = (case v of enat n \<Rightarrow> decimal n | \<infinity> \<Rightarrow> ''inf'')"

definition std_to_numeric_cell :: "enat cell \<Rightarrow> enat parsed" where
  "std_to_numeric_cell c =
     (case c of
        Num v \<Rightarrow> Val v
      | Blank \<Rightarrow> NaN
      | Str s \<Rightarrow>
          if s = ''inf'' then Val \<infinity>
          else if s = ''nan'' then NaN
          else if s = [] then Bad
          else (case digits_value 0 s of None \<Rightarrow> Bad | Some n \<Rightarrow> Val (enat n)))"

definition parse_iso_cell :: "'n cell \<Rightarrow> date option option" where
  "parse_iso_cell c =
     (case c of
        Blank \<Rightarrow> Some None
      | Num _ \<Rightarrow> None
      | Str s \<Rightarrow>
          (if length s = 10 \<and> s ! 4 = CHR ''-'' \<and> s ! 7 = CHR ''-''
           then (case (digits_value 0 (take 4 s), digits_value 0 (take 2 (drop 5 s)),
                       digits_value 0 (drop 8 s)) of
                   (Some y, Some m, Some d) \<Rightarrow> Some (Some \<lparr>year = y, month = m, day = d\<rparr>)
                 | _ \<Rightarrow> None)
           else None))"

definition parse_iso_dates :: "'n cell list \<Rightarrow> date option list option" where
  "parse_iso_dates s =
     (if None \<in> set (map parse_iso_cell s) then None
      else Some (map (\<lambda>c. the (parse_iso_cell c)) s))"

definition std_mul :: "enat \<Rightarrow> enat \<Rightarrow> enat option" where
  "std_mul a b =
     (if (a = \<infinity> \<and> b = 0) \<or> (a = 0 \<and> b = \<infinity>) then None else Some (a * b))"

definition std_pandas :: "enat pandas" where
  "std_pandas =
     \<lparr>to_numeric = map std_to_numeric_cell,
      to_datetime = parse_iso_dates,
      num_str = std_num_str,
      fill_zero = 0,
      mul = std_mul,
      mul_zero = (\<lambda>a. std_mul a 0),
      series_sum = (\<lambda>vs. Some (sum_list vs)),
      is_zero = (\<lambda>v. v = 0)\<rparr>"

definition value_or_top :: "enat option \<Rightarrow> enat" where
  "value_or_top v = (case v of Some x \<Rightarrow> x | None \<Rightarrow> \<infinity>)"

definition std_groupby :: "(string, enat) groupby" where
  "std_groupby =
     \<lparr>label_of = (\<lambda>c. case c of Str s \<Rightarrow> Some s | Num v \<Rightarrow> Some (std_num_str v) | Blank \<Rightarrow> None),
      group_sum = (\<lambda>vs. Some (sum_list (List.map_filter id vs))),
      sort_values_asc = sort_key (\<lambda>(k, v). value_or_top v),
      sort_values_desc = sort_key (\<lambda>(k, v). (v = None, Desc (value_or_top v)))\<rparr>"

text \<open>A renderer that draws every chart, and one whose pie chart raises.\<close>

definition std_renderer :: "(string, enat, unit) renderer" where
  "std_renderer =
     \<lparr>plot_products = (\<lambda>cur n s. Some ()), plot_trend = (\<lambda>cur s. Some ()),
      plot_share = (\<lambda>s. Some ()), plot_top = (\<lambda>s. Some ()),
      plot_weekdays = (\<lambda>cur s. Some ())\<rparr>"


section \<open>The specification's wording, for comparison\<close>



text \<open>
  The price/total rule as the specification words it: leading \<open>$\<close> and comma characters
  are stripped, the rest is parsed, an unparseable result becomes 0.
\<close>

definition spec_money_values :: "'n pandas \<Rightarrow> 'n cell list \<Rightarrow> 'n list" where
  "spec_money_values P s =
     coerce_fillna P
       (map (\<lambda>c. Str (dropWhile (\<lambda>ch. ch = CHR ''$'' \<or> ch = CHR '','') (cell_str P c))) s)"

text \<open>
  The schema validator as the specification words it: a required field is matched by the
  first header whose lowercased form is one of its synonyms (the headers as they are); the
  three conditions are tried in order; the third fails when the matched date column does
  not parse as dates or the matched quantity column does not parse as numbers for at least
  one row.
\<close>

definition date_names :: "string list" where
  "date_names = [''date'', ''sale date'', ''transaction date'', ''order date'']"

definition product_names :: "string list" where
  "product_names = [''product'', ''item'', ''description'', ''name'']"

definition quantity_names :: "string list" where
  "quantity_names = [''quantity'', ''qty'', ''units'']"

definition matched :: "string list \<Rightarrow> string list \<Rightarrow> string option" where
  "matched names cols = find (\<lambda>h. lower h \<in> set names) cols"

definition missing_fields :: "string list \<Rightarrow> string list" where
  "missing_fields cols =
     (if matched date_names cols = None then [''date''] else []) @
     (if matched product_names cols = None then [''product''] else []) @
     (if matched quantity_names cols = None then [''quantity''] else [])"

definition spec_validate :: "'n pandas \<Rightarrow> 'n frame \<Rightarrow> bool \<times> string" where
  "spec_validate P df =
     (let cols = columns df
      in if missing_fields cols \<noteq> []
         then (False, ''Missing required columns: '' @ join '', '' (missing_fields cols))
         else if \<not> list_ex (\<lambda>h. contains ''price'' (lower h) \<or> contains ''total'' (lower h)) cols
         then (False, ''Missing price or total column'')
         else (case (matched date_names cols, matched quantity_names cols) of
                 (Some dc, Some qc) \<Rightarrow>
                   if (case getitem df dc of
                         Series s \<Rightarrow>
                           (case to_datetime P s of
                              None \<Rightarrow> True
                            | Some ds \<Rightarrow> list_ex (\<lambda>d. d = None) ds)
                       | _ \<Rightarrow> True) \<or>
                      (case getitem df qc of
                         Series s \<Rightarrow>
                           list_ex (\<lambda>p. case p of Val v \<Rightarrow> False | _ \<Rightarrow> True) (to_numeric P s)
                       | _ \<Rightarrow> True)
                   then (False, ''Invalid date or quantity format'')
                   else (True, [])
               | _ \<Rightarrow> (False, ''Invalid date or quantity format'')))"

text \<open>
  The conditions as the code tries them: the headers are first stripped of surrounding
  whitespace, and in the third condition a column fails only when the date parser raises
  on it or one of its cells is not numeric; missing values pass. A matched label carried by
  more than one column does not parse.
\<close>

definition checked_conditions :: "'n pandas \<Rightarrow> 'n frame \<Rightarrow> bool \<times> string" where
  "checked_conditions P df =
     (let cols = map strip (columns df)
      in if missing_fields cols \<noteq> []
         then (False, ''Missing required columns: '' @ join '', '' (missing_fields cols))
         else if \<not> list_ex (\<lambda>h. contains ''price'' (lower h) \<or> contains ''total'' (lower h)) cols
         then (False, ''Missing price or total column'')
         else (case (matched date_names cols, matched quantity_names cols) of
                 (Some dc, Some qc) \<Rightarrow>
                   if (case getitem (strip_columns df) dc of
                         Series s \<Rightarrow> to_datetime P s = None | _ \<Rightarrow> True) \<or>
                      (case getitem (strip_columns df) qc of
                         Series s \<Rightarrow> list_ex (\<lambda>p. p = Bad) (to_numeric P s) | _ \<Rightarrow> True)
                   then (False, ''Invalid date or quantity format'')
                   else (True, [])
               | _ \<Rightarrow> (False, ''Invalid date or quantity format'')))"

section \<open>Well-formed inputs\<close>

text \<open>
  A frame of the library is rectangular, and parsing a series yields one result per cell.
\<close>

definition rectangular :: "'n frame \<Rightarrow> nat \<Rightarrow> bool" where
  "rectangular df n = list_all (\<lambda>c. length (snd c) = n) df"

definition length_preserving :: "'n pandas \<Rightarrow> bool" where
  "length_preserving P =
     ((\<forall>s. length (to_numeric P s) = length s) \<and>
      (\<forall>s ds. to_datetime P s = Some ds \<longrightarrow> length ds = length s))"

text \<open>Every column labelled \<open>name\<close> (there is at least one) holds the series \<open>s\<close>.\<close>

definition column_is :: "'n frame \<Rightarrow> string \<Rightarrow> 'n cell list \<Rightarrow> bool" where
  "column_is df name s = (name \<in> set (columns df) \<and> list_all (\<lambda>c. fst c = name \<longrightarrow> snd c = s) df)"

section \<open>Predicates on stored rows and frames\<close>

text \<open>
  A stored row whose total is the library's product of its quantity and its price, or of
  its quantity and 0 when the row has no price field; a NaN product is a missing total.
\<close>

definition row_total_recomputed :: "'n pandas \<Rightarrow> 'n row_dict \<Rightarrow> bool" where
  "row_total_recomputed P r =
     (case map_of r ''quantity'' of
        Some (Num q) \<Rightarrow>
          (case map_of r ''price'' of
             None \<Rightarrow> map_of r ''total'' = Some (product_cell (mul_zero P q))
           | Some (Num p) \<Rightarrow> map_of r ''total'' = Some (product_cell (mul P q p))
           | _ \<Rightarrow> False)
      | _ \<Rightarrow> False)"

text \<open>The same on the columns of a frame (used in the proofs only).\<close>

definition recomputed :: "'n pandas \<Rightarrow> 'n frame \<Rightarrow> bool" where
  "recomputed P out =
     (\<exists>qv. column_is out ''quantity'' (map Num qv) \<and>
        ((''price'' \<notin> set (columns out) \<and>
          column_is out ''total'' (map (\<lambda>q. product_cell (mul_zero P q)) qv)) \<or>
         (\<exists>pv. column_is out ''price'' (map Num pv) \<and>
               column_is out ''total'' (map2 (\<lambda>q p. product_cell (mul P q p)) qv pv))))"

text \<open>The numbers among the values of a series, and exact summation by the library.\<close>

definition present :: "'n option list \<Rightarrow> 'n list" where
  "present vs = List.map_filter id vs"

definition exact_sums :: "('k, 'n::comm_monoid_add) groupby \<Rightarrow> bool" where
  "exact_sums G = (\<forall>vs. group_sum G vs = Some (sum_list (present vs)))"

text \<open>
  The sums compared between the views: the revenues per product, the revenues per month,
  and the totals of all rows of the frame; and a sort that only reorders its series.
\<close>

definition product_revenue_sum :: "('k::linorder, 'n::comm_monoid_add) groupby \<Rightarrow> ('k, 'n) sale list \<Rightarrow> 'n" where
  "product_revenue_sum G df = sum_list (present (map snd (sales_by_product G df)))"

definition monthly_revenue_sum :: "('k, 'n::comm_monoid_add) groupby \<Rightarrow> ('k, 'n) sale list \<Rightarrow> 'n" where
  "monthly_revenue_sum G df = sum_list (present (map snd (monthly_sales G df)))"

definition grand_total :: "('k, 'n::comm_monoid_add) sale list \<Rightarrow> 'n" where
  "grand_total df = sum_list (present (map r_total df))"

definition sort_permutes :: "('k, 'n) groupby \<Rightarrow> bool" where
  "sort_permutes G = (\<forall>s. mset (sort_values_asc G s) = mset s)"

section \<open>Example inputs\<close>

definition request_for :: "string \<Rightarrow> 'n frame \<Rightarrow> 'n upload_request" where
  "request_for name df = \<lparr>session_user_id = Some 1, file_name = Some name, file_frame = Some df\<rparr>"

definition stored_row :: "string \<Rightarrow> string \<Rightarrow> 'n \<Rightarrow> 'n \<Rightarrow> 'n \<Rightarrow> 'n row_dict" where
  "stored_row d p q pr t =
     [(''date'', Str d), (''product'', Str p), (''quantity'', Num q), (''price'', Num pr),
      (''total'', Num t)]"

definition stored_as :: "string \<Rightarrow> string \<Rightarrow> 'n row_dict list \<Rightarrow> 'n user_upload" where
  "stored_as name cur rows = \<lparr>user_id = 1, filename = name, data = rows, currency = cur\<rparr>"

text \<open>Scenario A of the specification: no total column.\<close>

definition scenario_a :: "enat frame" where
  "scenario_a =
     [(''Date'', [Str ''2024-01-05'']), (''Item'', [Str ''Widget'']),
      (''Qty'', [Num 3]), (''Price (KSH)'', [Num 10])]"

definition scenario_a_upload :: "enat user_upload" where
  "scenario_a_upload = stored_as ''a.csv'' ''KSH'' [stored_row ''2024-01-05'' ''Widget'' 3 10 30]"

text \<open>Scenarios B and C: only the headers matter.\<close>

definition scenario_b :: "enat frame" where
  "scenario_b = [(''Date'', []), (''Product'', []), (''Quantity'', [])]"

definition scenario_c :: "enat frame" where
  "scenario_c = [(''Date'', []), (''Product'', [])]"

text \<open>Scenario D: a total column whose parsed sum is not 0.\<close>

definition scenario_d :: "enat frame" where
  "scenario_d =
     [(''Date'', [Str ''2024-01-05'', Str ''2024-01-06'']),
      (''Product'', [Str ''Widget'', Str ''Gadget'']),
      (''Quantity'', [Num 2, Num 5]),
      (''Price'', [Num 50, Num 0]),
      (''Total'', [Str ''$100'', Str ''$0''])]"

text \<open>Scenario E: a total column that is all zero.\<close>

definition scenario_e :: "enat frame" where
  "scenario_e =
     [(''Date'', [Str ''2024-01-05'', Str ''2024-01-06'']),
      (''Product'', [Str ''Widget'', Str ''Gadget'']),
      (''Quantity'', [Num 2, Num 5]),
      (''Price'', [Num 50, Num 20]),
      (''Total'', [Num 0, Num 0])]"

definition scenario_e_upload :: "enat user_upload" where
  "scenario_e_upload =
     stored_as ''e.csv'' ''USD''
       [stored_row ''2024-01-05'' ''Widget'' 2 50 100, stored_row ''2024-01-06'' ''Gadget'' 5 20 100]"

text \<open>
  Source totals that differ from quantity times price, and prices written with a currency
  sign and a thousands separator.
\<close>

definition discounted :: "enat frame" where
  "discounted =
     [(''Date'', [Str ''2024-01-05'', Str ''2024-01-06'']),
      (''Product'', [Str ''Widget'', Str ''Gadget'']),
      (''Quantity'', [Num 2, Num 5]),
      (''Price'', [Str ''$1,000'', Str ''20'']),
      (''Total'', [Str ''$1,900'', Str ''$0''])]"

definition discounted_upload :: "enat user_upload" where
  "discounted_upload =
     stored_as ''k.csv'' ''USD''
       [stored_row ''2024-01-05'' ''Widget'' 2 1000 1900, stored_row ''2024-01-06'' ''Gadget'' 5 20 0]"

text \<open>A price written with a thousands separator.\<close>

definition comma_price :: "enat frame" where
  "comma_price =
     [(''Date'', [Str ''2024-01-05'']), (''Product'', [Str ''Widget'']),
      (''Quantity'', [Num 2]), (''Price'', [Str ''1,000''])]"

definition comma_price_upload :: "enat user_upload" where
  "comma_price_upload = stored_as ''c.csv'' ''USD'' [stored_row ''2024-01-05'' ''Widget'' 2 1000 2000]"

text \<open>A row whose quantity cell is empty.\<close>

definition blank_quantity :: "enat frame" where
  "blank_quantity =
     [(''Date'', [Str ''2024-01-05'', Str ''2024-01-06'']),
      (''Product'', [Str ''Widget'', Str ''Gadget'']),
      (''Quantity'', [Num 3, Blank]),
      (''Price'', [Num 10, Num 10])]"

definition blank_quantity_upload :: "enat user_upload" where
  "blank_quantity_upload =
     stored_as ''q.csv'' ''USD''
       [stored_row ''2024-01-05'' ''Widget'' 3 10 30, stored_row ''2024-01-06'' ''Gadget'' 0 10 0]"

text \<open>A quantity cell that is not a number.\<close>

definition bad_quantity :: "enat frame" where
  "bad_quantity =
     [(''Date'', [Str ''2024-01-05'']), (''Product'', [Str ''Widget'']),
      (''Quantity'', [Str ''three'']), (''Price'', [Num 10])]"

text \<open>An infinite quantity at price 0.\<close>

definition infinite_quantity :: "enat frame" where
  "infinite_quantity =
     [(''Date'', [Str ''2024-01-05'']), (''Product'', [Str ''Widget'']),
      (''Quantity'', [Num \<infinity>]), (''Price'', [Num 0])]"

definition infinite_quantity_upload :: "enat user_upload" where
  "infinite_quantity_upload =
     stored_as ''i.csv'' ''USD''
       [ [(''date'', Str ''2024-01-05''), (''product'', Str ''Widget''), (''quantity'', Num \<infinity>),
          (''price'', Num 0), (''total'', Blank)] ]"

text \<open>Two synonyms of the product column: both are renamed to \<open>product\<close>.\<close>

definition two_product_labels :: "enat frame" where
  "two_product_labels =
     [(''Date'', [Str ''2024-01-05'']), (''Product'', [Str ''Widget'']),
      (''Item'', [Str ''W-1'']), (''Quantity'', [Num 3]), (''Price'', [Num 10])]"

definition two_product_labels_upload :: "enat user_upload" where
  "two_product_labels_upload =
     stored_as ''p.csv'' ''USD'' [stored_row ''2024-01-05'' ''W-1'' 3 10 30]"

text \<open>Headers with surrounding blanks.\<close>

definition padded_headers :: "enat frame" where
  "padded_headers =
     [('' Date'', [Str ''2024-01-05'']), (''Product '', [Str ''Widget'']),
      (''Quantity'', [Num 3]), (''Price'', [Num 10])]"

text \<open>Stored rows for the charts: three sales in January 2024, on a Friday and a Monday.\<close>

definition january_rows :: "enat row_dict list" where
  "january_rows =
     [stored_row ''2024-01-05'' ''Widget'' 3 10 30, stored_row ''2024-01-05'' ''Gadget'' 1 20 20,
      stored_row ''2024-01-08'' ''Widget'' 2 10 20]"



text \<open>A row without a product.\<close>

definition blank_product_rows :: "enat row_dict list" where
  "blank_product_rows =
     [stored_row ''2024-01-05'' ''Widget'' 2 10 20,
      [(''date'', Str ''2024-01-06''), (''product'', Blank), (''quantity'', Num 3),
       (''price'', Num 10), (''total'', Num 30)] ]"



text \<open>The table whose upload stores the rows with a missing product.\<close>

definition blank_product :: "enat frame" where
  "blank_product =
     [(''Date'', [Str ''2024-01-05'', Str ''2024-01-06'']),
      (''Product'', [Str ''Widget'', Blank]),
      (''Quantity'', [Num 2, Num 3]),
      (''Price'', [Num 10, Num 10])]"

text \<open>The frames that the chart prelude builds from these rows.\<close>

definition sale_on :: "nat \<Rightarrow> nat \<Rightarrow> nat \<Rightarrow> string option \<Rightarrow> enat \<Rightarrow> enat \<Rightarrow> enat \<Rightarrow> (string, enat) sale" where
  "sale_on y m d p q pr t =
     \<lparr>r_date = Some \<lparr>year = y, month = m, day = d\<rparr>, r_product = p, r_quantity = q,
      r_price = pr, r_total = Some t\<rparr>"


definition january_frame :: "(string, enat) sale list" where
  "january_frame =
     [sale_on 2024 1 5 (Some ''Widget'') 3 10 30, sale_on 2024 1 5 (Some ''Gadget'') 1 20 20,
      sale_on 2024 1 8 (Some ''Widget'') 2 10 20]"


definition blank_product_frame :: "(string, enat) sale list" where
  "blank_product_frame =
     [sale_on 2024 1 5 (Some ''Widget'') 2 10 20, sale_on 2024 1 6 None 3 10 30]"

section \<open>Auxiliary lemmas\<close>

lemma starts_with_iff: "starts_with p s \<longleftrightarrow> (\<exists>ss. s = p @ ss)"
  by (induction p s rule: starts_with.induct) auto

lemma contains_iff: "contains sub s \<longleftrightarrow> (\<exists>ps ss. s = ps @ sub @ ss)"
proof (induction s)
  case Nil
  then show ?case by auto
next
  case (Cons c cs)
  show ?case
  proof
    assume "contains sub (c # cs)"
    then consider "starts_with sub (c # cs)" | "contains sub cs" by auto
    then show "\<exists>ps ss. c # cs = ps @ sub @ ss"
    proof cases
      case 1
      then obtain ss where "c # cs = sub @ ss" by (auto simp: starts_with_iff)
      then have "c # cs = [] @ sub @ ss" by simp
      then show ?thesis by blast
    next
      case 2
      then obtain ps ss where "cs = ps @ sub @ ss" using Cons.IH by auto
      then have "c # cs = (c # ps) @ sub @ ss" by simp
      then show ?thesis by blast
    qed
  next
    assume "\<exists>ps ss. c # cs = ps @ sub @ ss"
    then obtain ps ss where e: "c # cs = ps @ sub @ ss" by auto
    show "contains sub (c # cs)"
    proof (cases ps)
      case Nil
      with e have "starts_with sub (c # cs)" by (auto simp: starts_with_iff)
      then show ?thesis by simp
    next
      case (Cons p ps')
      with e have "cs = ps' @ sub @ ss" by simp
      then have "contains sub cs" using Cons.IH by blast
      then show ?thesis by simp
    qed
  qed
qed

lemma contains_rev: "contains (rev sub) (rev s) = contains sub s"
proof -
  have "(\<exists>ps ss. rev s = ps @ rev sub @ ss) \<longleftrightarrow> (\<exists>ps ss. s = ps @ sub @ ss)"
  proof
    assume "\<exists>ps ss. rev s = ps @ rev sub @ ss"
    then obtain ps ss where "rev s = ps @ rev sub @ ss" by auto
    then have "s = rev ss @ sub @ rev ps" by (metis append.assoc rev_append rev_rev_ident)
    then show "\<exists>ps ss. s = ps @ sub @ ss" by blast
  next
    assume "\<exists>ps ss. s = ps @ sub @ ss"
    then obtain ps ss where "s = ps @ sub @ ss" by auto
    then have "rev s = rev ss @ rev sub @ rev ps" by simp
    then show "\<exists>ps ss. rev s = ps @ rev sub @ ss" by blast
  qed
  then show ?thesis by (simp add: contains_iff)
qed

lemma contains_dropWhile:
  "\<not> P k \<Longrightarrow> contains (k # sub) (dropWhile P s) = contains (k # sub) s"
  by (induction s) auto

lemma contains_strip:
  assumes "\<not> is_space k" "\<not> is_space l"
  shows "contains (k # mid @ [l]) (strip s) = contains (k # mid @ [l]) s"
proof -
  have "contains (k # mid @ [l]) (strip s)
      = contains (rev (k # mid @ [l])) (dropWhile is_space (rev (dropWhile is_space s)))"
    unfolding strip_def by (metis contains_rev rev_rev_ident)
  also have "\<dots> = contains (l # rev mid @ [k]) (rev (dropWhile is_space s))"
    using contains_dropWhile [of is_space l "rev mid @ [k]"] assms(2) by simp
  also have "\<dots> = contains (k # mid @ [l]) (dropWhile is_space s)"
    using contains_rev [of "k # mid @ [l]"] by simp
  also have "\<dots> = contains (k # mid @ [l]) s"
    using contains_dropWhile [of is_space k "mid @ [l]"] assms(1) by simp
  finally show ?thesis .
qed

lemma is_space_lower_char: "is_space (lower_char c) = is_space c"
  by (auto simp: is_space_def lower_char_def Let_def)

lemma lower_strip: "lower (strip s) = strip (lower s)"
  by (simp add: lower_def strip_def rev_map dropWhile_map comp_def is_space_lower_char)

lemma contains_ksh_strip: "contains ''ksh'' (lower (strip h)) = contains ''ksh'' (lower h)"
  using contains_strip [of "CHR ''k''" "CHR ''h''" "''s''" "lower h"]
  by (simp add: lower_strip is_space_def)

lemma detect_currency_strip: "detect_currency (strip_columns df) = detect_currency df"
  by (simp add: detect_currency_def strip_columns_def columns_def list_ex_iff
      contains_ksh_strip split_beta)

lemma upload_file_persists:
  assumes "upload_file P req store = (resp, store')" "store' \<noteq> store"
  shows "\<exists>uid fname raw out.
           session_user_id req = Some uid \<and> file_name req = Some fname \<and>
           file_frame req = Some raw \<and>
           fst (validate_dataframe P (strip_columns raw)) \<and>
           list_all (\<lambda>col. col \<in> set (columns (standardize_column_names (strip_columns raw))))
             [''date'', ''product'', ''quantity''] \<and>
           coerce P (standardize_column_names (strip_columns raw)) = Some out \<and>
           store' = store @ [\<lparr>user_id = uid, filename = fname, data = to_dict out,
                              currency = detect_currency (strip_columns raw)\<rparr>]"
  using assms unfolding upload_file_def Let_def
  by (auto split: option.splits if_splits prod.splits)

lemma columns_replace: "map fst (map (\<lambda>c. if fst c = n then (n, s) else c) df) = map fst df"
  by (induction df) auto

lemma columns_setitem: "set (columns (setitem df n s)) = insert n (set (columns df))"
proof (cases "n \<in> set (columns df)")
  case True
  then have "columns (setitem df n s) = columns df"
    by (simp add: setitem_def columns_def columns_replace del: map_map)
  with True show ?thesis by auto
next
  case False
  then show ?thesis by (simp add: setitem_def columns_def)
qed

lemma columns_setitem_mem: "n \<in> set (columns df) \<Longrightarrow> columns (setitem df n s) = columns df"
  by (simp add: setitem_def columns_def columns_replace del: map_map)

lemma set_setitem:
  "c \<in> set (setitem df n s) \<Longrightarrow> (fst c = n \<and> snd c = s) \<or> (fst c \<noteq> n \<and> c \<in> set df)"
  by (cases "n \<in> set (columns df)") (auto simp: setitem_def columns_def image_iff)

lemma column_is_setitem_same: "column_is (setitem df n s) n s"
  unfolding column_is_def list_all_iff using set_setitem [of _ df n s]
  by (auto simp: columns_setitem)

lemma column_is_setitem_other: "m \<noteq> n \<Longrightarrow> column_is df m t \<Longrightarrow> column_is (setitem df n s) m t"
  unfolding column_is_def list_all_iff using set_setitem [of _ df n s]
  by (auto simp: columns_setitem)

lemma getitem_setitem_other: "m \<noteq> n \<Longrightarrow> getitem (setitem df n s) m = getitem df m"
proof -
  assume "m \<noteq> n"
  then have "filter (\<lambda>c. fst c = m) (map (\<lambda>c. if fst c = n then (n, s) else c) df)
      = filter (\<lambda>c. fst c = m) df"
    by (induction df) auto
  with \<open>m \<noteq> n\<close> have "filter (\<lambda>c. fst c = m) (setitem df n s) = filter (\<lambda>c. fst c = m) df"
    by (simp add: setitem_def)
  then show ?thesis by (simp add: getitem_def)
qed

lemma getitem_KeyError_iff: "getitem df n = KeyError \<longleftrightarrow> n \<notin> set (columns df)"
proof -
  have "map snd (filter (\<lambda>c. fst c = n) df) = [] \<longleftrightarrow> n \<notin> set (columns df)"
    by (auto simp: columns_def filter_empty_conv)
  then show ?thesis by (auto simp: getitem_def split: list.splits)
qed

lemma getitem_Series_mem: "getitem df n = Series s \<Longrightarrow> (n, s) \<in> set df"
proof -
  assume "getitem df n = Series s"
  then have "map snd (filter (\<lambda>c. fst c = n) df) = [s]"
    by (auto simp: getitem_def split: list.splits)
  then obtain c where "filter (\<lambda>c. fst c = n) df = [c]" "snd c = s" by auto
  then have "c \<in> set (filter (\<lambda>c. fst c = n) df)" "snd c = s" by simp_all
  then show ?thesis by auto
qed

lemma column_is_getitem: "column_is df n s \<Longrightarrow> getitem df n = Series t \<Longrightarrow> t = s"
  by (drule getitem_Series_mem) (auto simp: column_is_def list_all_iff)

lemma getitem_Series_column_is: "getitem df n = Series s \<Longrightarrow> column_is df n s"
proof -
  assume g: "getitem df n = Series s"
  then have e: "map snd (filter (\<lambda>c. fst c = n) df) = [s]"
    by (auto simp: getitem_def split: list.splits)
  have "\<And>c. c \<in> set df \<Longrightarrow> fst c = n \<Longrightarrow> snd c = s"
  proof -
    fix c assume "c \<in> set df" "fst c = n"
    then have "snd c \<in> set (map snd (filter (\<lambda>c. fst c = n) df))" by auto
    then show "snd c = s" by (simp add: e)
  qed
  moreover have "n \<in> set (columns df)"
    using getitem_Series_mem [OF g] by (force simp: columns_def)
  ultimately show ?thesis by (auto simp: column_is_def list_all_iff)
qed

lemma map_of_fold_update:
  "map_of (fold (\<lambda>(k, v). AList.update k v) kvs al) k =
     (case map_of (rev kvs) k of Some v \<Rightarrow> Some v | None \<Rightarrow> map_of al k)"
  by (induction kvs arbitrary: al) (auto simp: update_conv' map_add_def split: option.splits)

lemma map_of_dict: "map_of (dict kvs) k = map_of (rev kvs) k"
  by (simp add: dict_def map_of_fold_update split: option.splits)

lemma map_of_all_same:
  assumes "k \<in> fst ` set kvs" "\<forall>p \<in> set kvs. fst p = k \<longrightarrow> snd p = v"
  shows "map_of kvs k = Some v"
proof -
  from assms(1) obtain w where "map_of kvs k = Some w" by (metis map_of_eq_None_iff not_Some_eq)
  moreover from this have "(k, w) \<in> set kvs" by (rule map_of_SomeD)
  ultimately show ?thesis using assms(2) by auto
qed

lemma to_dict_lookup:
  assumes "column_is df n s" "i < nrows df"
  shows "map_of (to_dict df ! i) n = Some (s ! i)"
proof -
  have "map_of (to_dict df ! i) n = map_of (rev (map (\<lambda>(h, cs). (h, cs ! i)) df)) n"
    using assms(2) by (simp add: to_dict_def map_of_dict)
  also have "\<dots> = Some (s ! i)"
    using assms(1)
    by (intro map_of_all_same) (auto simp: column_is_def list_all_iff columns_def image_iff split_beta)
  finally show ?thesis .
qed

lemma to_dict_absent:
  assumes "n \<notin> set (columns df)" "i < nrows df"
  shows "map_of (to_dict df ! i) n = None"
  using assms by (force simp: to_dict_def map_of_dict map_of_eq_None_iff columns_def split_beta image_iff)

lemma length_to_dict: "length (to_dict df) = nrows df"
  by (simp add: to_dict_def)

lemma first_containing_Some:
  "first_containing sub df = Some c \<Longrightarrow> contains sub c \<and> c \<in> set (columns df)"
  by (auto simp: first_containing_def find_Some_iff)

lemma first_containing_None:
  "first_containing sub df = None \<Longrightarrow> c \<in> set (columns df) \<Longrightarrow> \<not> contains sub c"
  by (auto simp: first_containing_def find_None_iff)

lemma first_containing_cong:
  "columns df = columns df' \<Longrightarrow> first_containing sub df = first_containing sub df'"
  by (simp add: first_containing_def)

lemma contains_price_neq:
  "contains ''price'' c \<Longrightarrow> c \<noteq> ''quantity'' \<and> c \<noteq> ''date'' \<and> c \<noteq> ''total''"
  by auto

lemma contains_total_neq:
  "contains ''total'' c \<Longrightarrow> c \<noteq> ''quantity'' \<and> c \<noteq> ''date'' \<and> c \<noteq> ''price''"
  by auto

lemma numbers_Num: "numbers (map Num vs) = vs"
  by (induction vs) (simp_all add: numbers_def map_filter_simps)

lemma parse_money_column_cases:
  assumes "parse_money_column P src target df = Some df'"
  shows "(src = None \<and> df' = df) \<or>
         (\<exists>c s. src = Some c \<and> getitem df c = Series s \<and> df' = setitem df target (map Num (money_values P s)))"
  using assms by (auto simp: parse_money_column_def split: option.splits item.splits)

lemma compute_total_cases:
  assumes "compute_total P df = Some df'"
  shows "\<exists>q. getitem df ''quantity'' = Series q \<and>
           ((''price'' \<notin> set (columns df) \<and> df' = setitem df ''total'' (map (mul_zero_cell P) q)) \<or>
            (\<exists>p. getitem df ''price'' = Series p \<and> df' = setitem df ''total'' (map2 (mul_cell P) q p)))"
  using assms
  by (auto simp: compute_total_def getitem_KeyError_iff [symmetric] split: item.splits)

lemma fill_total_cases:
  assumes "fill_total P df = Some df'"
  shows "(\<exists>t. getitem df ''total'' = Series t \<and> \<not> sum_is_zero P (numbers t) \<and> df' = df) \<or>
         (compute_total P df = Some df' \<and>
            (''total'' \<notin> set (columns df) \<or> (\<exists>t. getitem df ''total'' = Series t \<and> sum_is_zero P (numbers t))))"
  using assms by (auto simp: fill_total_def split: if_splits item.splits)

lemma format_dates_cases:
  assumes "format_dates P df = Some df'"
  shows "\<exists>s ds. getitem df ''date'' = Series s \<and> to_datetime P s = Some ds \<and>
                df' = setitem df ''date'' (map date_cell ds)"
  using assms by (auto simp: format_dates_def split: item.splits option.splits)

lemma coerce_steps:
  assumes "coerce P df = Some out"
  shows "\<exists>qs df2 df3 df4.
           getitem df ''quantity'' = Series qs \<and>
           parse_money_column P (first_containing ''price'' df) ''price''
             (setitem df ''quantity'' (map Num (coerce_fillna P qs))) = Some df2 \<and>
           parse_money_column P (first_containing ''total'' df) ''total'' df2 = Some df3 \<and>
           fill_total P df3 = Some df4 \<and> format_dates P df4 = Some out"
proof -
  from assms obtain qs where q: "getitem df ''quantity'' = Series qs"
    by (auto simp: coerce_def split: item.splits)
  then have "''quantity'' \<in> set (columns df)"
    using getitem_KeyError_iff [of df "''quantity''"] by auto
  then have c: "columns (setitem df ''quantity'' (map Num (coerce_fillna P qs))) = columns df"
    by (rule columns_setitem_mem)
  show ?thesis
    using assms q first_containing_cong [OF c]
    by (auto simp: coerce_def Let_def Option.bind_eq_Some_conv)
qed

lemma parse_money_column_other:
  assumes "parse_money_column P src target df = Some df'" "m \<noteq> target"
  shows "getitem df' m = getitem df m" "column_is df m t \<Longrightarrow> column_is df' m t"
    "m \<in> set (columns df') \<longleftrightarrow> m \<in> set (columns df)"
  using parse_money_column_cases [OF assms(1)] assms(2)
  by (auto simp: getitem_setitem_other column_is_setitem_other columns_setitem)

lemma fill_total_other:
  assumes "fill_total P df = Some df'" "m \<noteq> ''total''"
  shows "getitem df' m = getitem df m" "column_is df m t \<Longrightarrow> column_is df' m t"
    "m \<in> set (columns df') \<longleftrightarrow> m \<in> set (columns df)"
  using fill_total_cases [OF assms(1)] assms(2)
  by (auto dest!: compute_total_cases simp: getitem_setitem_other column_is_setitem_other columns_setitem)

lemma format_dates_other:
  assumes "format_dates P df = Some df'" "m \<noteq> ''date''"
  shows "getitem df' m = getitem df m" "column_is df m t \<Longrightarrow> column_is df' m t"
    "m \<in> set (columns df') \<longleftrightarrow> m \<in> set (columns df)"
  using format_dates_cases [OF assms(1)] assms(2)
  by (auto simp: getitem_setitem_other column_is_setitem_other columns_setitem)

lemma parse_money_column_target:
  assumes "parse_money_column P src target df = Some df'"
  shows "(src = None \<and> df' = df) \<or>
         (\<exists>c s. src = Some c \<and> getitem df c = Series s \<and> column_is df' target (map Num (money_values P s)))"
  using parse_money_column_cases [OF assms] by (auto simp: column_is_setitem_same)

lemma map2_mul_cell_Num: "map2 (mul_cell P) (map Num qv) (map Num pv) = map2 (\<lambda>q p. product_cell (mul P q p)) qv pv"
proof (induction qv arbitrary: pv)
  case Nil
  then show ?case by simp
next
  case (Cons q qv)
  then show ?case by (cases pv) (simp_all add: mul_cell_def)
qed

lemma map_mul_cell_zero: "map (mul_zero_cell P) (map Num qv) = map (\<lambda>q. product_cell (mul_zero P q)) qv"
  by (simp add: mul_zero_cell_def)

lemma column_is_mem: "column_is df n s \<Longrightarrow> n \<in> set (columns df)"
  by (simp add: column_is_def)

lemma coerce_quantity:
  assumes "coerce P df = Some out"
  shows "\<exists>qs. getitem df ''quantity'' = Series qs \<and>
              column_is out ''quantity'' (map Num (coerce_fillna P qs))"
proof -
  from coerce_steps [OF assms] obtain qs df2 df3 df4 where
    q: "getitem df ''quantity'' = Series qs" and
    s2: "parse_money_column P (first_containing ''price'' df) ''price''
             (setitem df ''quantity'' (map Num (coerce_fillna P qs))) = Some df2" and
    s3: "parse_money_column P (first_containing ''total'' df) ''total'' df2 = Some df3" and
    s4: "fill_total P df3 = Some df4" and s5: "format_dates P df4 = Some out"
    by blast
  have "column_is df2 ''quantity'' (map Num (coerce_fillna P qs))"
    by (rule parse_money_column_other(2) [OF s2]) (simp_all add: column_is_setitem_same)
  then have "column_is df3 ''quantity'' (map Num (coerce_fillna P qs))"
    by (intro parse_money_column_other(2) [OF s3]) simp_all
  then have "column_is df4 ''quantity'' (map Num (coerce_fillna P qs))"
    by (intro fill_total_other(2) [OF s4]) simp_all
  then have "column_is out ''quantity'' (map Num (coerce_fillna P qs))"
    by (intro format_dates_other(2) [OF s5]) simp_all
  with q show ?thesis by blast
qed

lemma coerce_price:
  assumes "coerce P df = Some out"
  shows "(first_containing ''price'' df = None \<and> ''price'' \<notin> set (columns out)) \<or>
         (\<exists>c ps. first_containing ''price'' df = Some c \<and> getitem df c = Series ps \<and>
                 column_is out ''price'' (map Num (money_values P ps)))"
proof -
  from coerce_steps [OF assms] obtain qs df2 df3 df4 where
    q: "getitem df ''quantity'' = Series qs" and
    s2: "parse_money_column P (first_containing ''price'' df) ''price''
             (setitem df ''quantity'' (map Num (coerce_fillna P qs))) = Some df2" and
    s3: "parse_money_column P (first_containing ''total'' df) ''total'' df2 = Some df3" and
    s4: "fill_total P df3 = Some df4" and s5: "format_dates P df4 = Some out"
    by blast
  let ?df1 = "setitem df ''quantity'' (map Num (coerce_fillna P qs))"
  have keep_mem: "''price'' \<in> set (columns out) \<longleftrightarrow> ''price'' \<in> set (columns df2)"
    using parse_money_column_other(3) [OF s3, of "''price''"]
      fill_total_other(3) [OF s4, of "''price''"] format_dates_other(3) [OF s5, of "''price''"]
    by simp
  have keep_col: "\<And>t. column_is df2 ''price'' t \<Longrightarrow> column_is out ''price'' t"
    using parse_money_column_other(2) [OF s3, of "''price''"]
      fill_total_other(2) [OF s4, of "''price''"] format_dates_other(2) [OF s5, of "''price''"]
    by simp
  from parse_money_column_target [OF s2]
  show ?thesis
  proof
    assume a: "first_containing ''price'' df = None \<and> df2 = ?df1"
    then have "''price'' \<notin> set (columns df)"
      using first_containing_None [of "''price''" df "''price''"] by auto
    with a have "''price'' \<notin> set (columns df2)" by (simp add: columns_setitem)
    with a keep_mem show ?thesis by simp
  next
    assume "\<exists>c s. first_containing ''price'' df = Some c \<and> getitem ?df1 c = Series s \<and>
              column_is df2 ''price'' (map Num (money_values P s))"
    then obtain c s where c: "first_containing ''price'' df = Some c"
      "getitem ?df1 c = Series s" "column_is df2 ''price'' (map Num (money_values P s))" by blast
    from c(1) have "c \<noteq> ''quantity''"
      using first_containing_Some contains_price_neq by blast
    with c(2) have "getitem df c = Series s" by (simp add: getitem_setitem_other)
    with c(1) keep_col [OF c(3)] show ?thesis by blast
  qed
qed

lemma coerce_total:
  assumes "coerce P df = Some out"
  shows "(first_containing ''total'' df = None \<and> recomputed P out) \<or>
         (\<exists>c ts. first_containing ''total'' df = Some c \<and> getitem df c = Series ts \<and>
                 (if sum_is_zero P (money_values P ts) then recomputed P out
                  else column_is out ''total'' (map Num (money_values P ts))))"
proof -
  from coerce_steps [OF assms] obtain qs df2 df3 df4 where
    q: "getitem df ''quantity'' = Series qs" and
    s2: "parse_money_column P (first_containing ''price'' df) ''price''
             (setitem df ''quantity'' (map Num (coerce_fillna P qs))) = Some df2" and
    s3: "parse_money_column P (first_containing ''total'' df) ''total'' df2 = Some df3" and
    s4: "fill_total P df3 = Some df4" and s5: "format_dates P df4 = Some out"
    by blast
  let ?Q = "map Num (coerce_fillna P qs)"
  let ?df1 = "setitem df ''quantity'' ?Q"
  have q3: "column_is df3 ''quantity'' ?Q"
    by (intro parse_money_column_other(2) [OF s3] parse_money_column_other(2) [OF s2])
       (simp_all add: column_is_setitem_same)
  \<comment> \<open>the price column after the first three steps\<close>
  have p3: "(''price'' \<notin> set (columns df3)) \<or>
            (\<exists>pv. column_is df3 ''price'' (map Num pv))"
  proof -
    from parse_money_column_target [OF s2]
    have "''price'' \<notin> set (columns df2) \<or> (\<exists>pv. column_is df2 ''price'' (map Num pv))"
    proof
      assume a: "first_containing ''price'' df = None \<and> df2 = ?df1"
      then have "''price'' \<notin> set (columns df)"
        using first_containing_None [of "''price''" df "''price''"] by auto
      with a show ?thesis by (simp add: columns_setitem)
    next
      assume "\<exists>c s. first_containing ''price'' df = Some c \<and> getitem ?df1 c = Series s \<and>
              column_is df2 ''price'' (map Num (money_values P s))"
      then obtain s where "column_is df2 ''price'' (map Num (money_values P s))" by blast
      then show ?thesis by blast
    qed
    then show ?thesis
      using parse_money_column_other(2,3) [OF s3, of "''price''"] by auto
  qed
  \<comment> \<open>the total column after the first three steps\<close>
  have t3: "(first_containing ''total'' df = None \<and> ''total'' \<notin> set (columns df3)) \<or>
            (\<exists>c ts. first_containing ''total'' df = Some c \<and> getitem df c = Series ts \<and>
                 column_is df3 ''total'' (map Num (money_values P ts)))"
  proof -
    from parse_money_column_target [OF s3]
    show ?thesis
    proof
      assume a: "first_containing ''total'' df = None \<and> df3 = df2"
      then have "''total'' \<notin> set (columns df)"
        using first_containing_None [of "''total''" df "''total''"] by auto
      then have "''total'' \<notin> set (columns ?df1)" by (simp add: columns_setitem)
      then have "''total'' \<notin> set (columns df2)"
        using parse_money_column_other(3) [OF s2, of "''total''"] by simp
      with a show ?thesis by simp
    next
      assume "\<exists>c s. first_containing ''total'' df = Some c \<and> getitem df2 c = Series s \<and>
              column_is df3 ''total'' (map Num (money_values P s))"
      then obtain c s where c: "first_containing ''total'' df = Some c"
        "getitem df2 c = Series s" "column_is df3 ''total'' (map Num (money_values P s))" by blast
      from c(1) have ne: "c \<noteq> ''quantity''" "c \<noteq> ''price''"
        using first_containing_Some contains_total_neq by blast+
      from c(2) ne have "getitem df c = Series s"
        using parse_money_column_other(1) [OF s2, of c] by (simp add: getitem_setitem_other)
      with c show ?thesis by blast
    qed
  qed
  \<comment> \<open>what a recomputation yields\<close>
  have comp: "recomputed P out" if ct: "compute_total P df3 = Some df4"
  proof -
    from compute_total_cases [OF ct] obtain qc where
      qc: "getitem df3 ''quantity'' = Series qc" and
      alt: "(''price'' \<notin> set (columns df3) \<and>
               df4 = setitem df3 ''total'' (map (mul_zero_cell P) qc)) \<or>
            (\<exists>p. getitem df3 ''price'' = Series p \<and> df4 = setitem df3 ''total'' (map2 (mul_cell P) qc p))"
      by blast
    have qc_eq: "qc = ?Q" using column_is_getitem [OF q3 qc] .
    have q_out: "column_is out ''quantity'' ?Q"
      by (intro format_dates_other(2) [OF s5] fill_total_other(2) [OF s4] q3) simp_all
    from alt show ?thesis
    proof
      assume a: "''price'' \<notin> set (columns df3) \<and>
               df4 = setitem df3 ''total'' (map (mul_zero_cell P) qc)"
      have e: "map (mul_zero_cell P) qc = map (\<lambda>q. product_cell (mul_zero P q)) (coerce_fillna P qs)"
        unfolding qc_eq by (rule map_mul_cell_zero)
      from a have "df4 = setitem df3 ''total'' (map (\<lambda>q. product_cell (mul_zero P q)) (coerce_fillna P qs))"
        by (simp only: e)
      then have "column_is df4 ''total'' (map (\<lambda>q. product_cell (mul_zero P q)) (coerce_fillna P qs))"
        by (simp only: column_is_setitem_same)
      then have t_out: "column_is out ''total'' (map (\<lambda>q. product_cell (mul_zero P q)) (coerce_fillna P qs))"
        by (intro format_dates_other(2) [OF s5]) simp_all
      from a have "''price'' \<notin> set (columns out)"
        using fill_total_other(3) [OF s4, of "''price''"] format_dates_other(3) [OF s5, of "''price''"]
        by simp
      with q_out t_out show ?thesis unfolding recomputed_def by blast
    next
      assume "\<exists>p. getitem df3 ''price'' = Series p \<and> df4 = setitem df3 ''total'' (map2 (mul_cell P) qc p)"
      then obtain p where p: "getitem df3 ''price'' = Series p"
        "df4 = setitem df3 ''total'' (map2 (mul_cell P) qc p)" by blast
      from p(1) have "''price'' \<in> set (columns df3)"
        using getitem_KeyError_iff [of df3 "''price''"] by auto
      with p3 obtain pv where pv: "column_is df3 ''price'' (map Num pv)" by blast
      have p_eq: "p = map Num pv" using column_is_getitem [OF pv p(1)] .
      have e: "map2 (mul_cell P) qc p = map2 (\<lambda>q p. product_cell (mul P q p)) (coerce_fillna P qs) pv"
        unfolding qc_eq p_eq by (rule map2_mul_cell_Num)
      from p(2) have "df4 = setitem df3 ''total'' (map2 (\<lambda>q p. product_cell (mul P q p)) (coerce_fillna P qs) pv)"
        by (simp only: e)
      then have "column_is df4 ''total'' (map2 (\<lambda>q p. product_cell (mul P q p)) (coerce_fillna P qs) pv)"
        by (simp only: column_is_setitem_same)
      then have t_out: "column_is out ''total'' (map2 (\<lambda>q p. product_cell (mul P q p)) (coerce_fillna P qs) pv)"
        by (intro format_dates_other(2) [OF s5]) simp_all
      have p_out: "column_is out ''price'' (map Num pv)"
        by (intro format_dates_other(2) [OF s5] fill_total_other(2) [OF s4] pv) simp_all
      from q_out t_out p_out show ?thesis unfolding recomputed_def by blast
    qed
  qed
  from fill_total_cases [OF s4]
  show ?thesis
  proof
    assume "\<exists>t. getitem df3 ''total'' = Series t \<and> \<not> sum_is_zero P (numbers t) \<and> df4 = df3"
    then obtain t where t: "getitem df3 ''total'' = Series t" "\<not> sum_is_zero P (numbers t)" "df4 = df3"
      by blast
    from t(1) have "''total'' \<in> set (columns df3)"
      using getitem_KeyError_iff [of df3 "''total''"] by auto
    with t3 obtain c ts where c: "first_containing ''total'' df = Some c"
      "getitem df c = Series ts" "column_is df3 ''total'' (map Num (money_values P ts))" by blast
    have "t = map Num (money_values P ts)" using column_is_getitem [OF c(3) t(1)] .
    moreover have "column_is out ''total'' (map Num (money_values P ts))"
      using format_dates_other(2) [OF s5, of "''total''"] c(3) t(3) by simp
    ultimately show ?thesis using c t(2) by (auto simp: numbers_Num)
  next
    assume a: "compute_total P df3 = Some df4 \<and>
      (''total'' \<notin> set (columns df3) \<or> (\<exists>t. getitem df3 ''total'' = Series t \<and> sum_is_zero P (numbers t)))"
    then have r: "recomputed P out" using comp by simp
    from a have "''total'' \<notin> set (columns df3) \<or> (\<exists>t. getitem df3 ''total'' = Series t \<and> sum_is_zero P (numbers t))"
      by simp
    then show ?thesis
    proof
      assume "''total'' \<notin> set (columns df3)"
      with t3 have "first_containing ''total'' df = None"
        using column_is_mem by blast
      with r show ?thesis by simp
    next
      assume "\<exists>t. getitem df3 ''total'' = Series t \<and> sum_is_zero P (numbers t)"
      then obtain t where t: "getitem df3 ''total'' = Series t" "sum_is_zero P (numbers t)" by blast
      from t(1) have "''total'' \<in> set (columns df3)"
        using getitem_KeyError_iff [of df3 "''total''"] by auto
      with t3 obtain c ts where c: "first_containing ''total'' df = Some c"
        "getitem df c = Series ts" "column_is df3 ''total'' (map Num (money_values P ts))" by blast
      have "t = map Num (money_values P ts)" using column_is_getitem [OF c(3) t(1)] .
      with c t(2) r show ?thesis by (auto simp: numbers_Num)
    qed
  qed
qed

lemma rectangular_setitem:
  "rectangular df n \<Longrightarrow> length s = n \<Longrightarrow> rectangular (setitem df k s) n"
  unfolding rectangular_def list_all_iff using set_setitem [of _ df k s] by auto

lemma rectangular_getitem: "rectangular df n \<Longrightarrow> getitem df k = Series s \<Longrightarrow> length s = n"
  by (drule getitem_Series_mem) (auto simp: rectangular_def list_all_iff)

lemma rectangular_column_is: "rectangular df n \<Longrightarrow> column_is df k s \<Longrightarrow> length s = n"
  by (auto simp: rectangular_def column_is_def list_all_iff columns_def)

lemma rectangular_nrows: "rectangular df n \<Longrightarrow> df \<noteq> [] \<Longrightarrow> nrows df = n"
  by (cases df) (auto simp: rectangular_def nrows_def)

lemma rectangular_normalized:
  "rectangular df n \<Longrightarrow> rectangular (standardize_column_names (strip_columns df)) n"
  by (auto simp: rectangular_def list_all_iff standardize_column_names_def strip_columns_def)

lemma setitem_nonempty: "setitem df k s \<noteq> []"
  by (auto simp: setitem_def columns_def)

lemma coerce_rectangular:
  assumes "coerce P df = Some out" "rectangular df n" "length_preserving P"
  shows "rectangular out n \<and> out \<noteq> []"
proof -
  from coerce_steps [OF assms(1)] obtain qs df2 df3 df4 where
    q: "getitem df ''quantity'' = Series qs" and
    s2: "parse_money_column P (first_containing ''price'' df) ''price''
             (setitem df ''quantity'' (map Num (coerce_fillna P qs))) = Some df2" and
    s3: "parse_money_column P (first_containing ''total'' df) ''total'' df2 = Some df3" and
    s4: "fill_total P df3 = Some df4" and s5: "format_dates P df4 = Some out"
    by blast
  have r1: "rectangular (setitem df ''quantity'' (map Num (coerce_fillna P qs))) n"
    using rectangular_getitem [OF assms(2) q] assms(3)
    by (intro rectangular_setitem assms(2)) (simp add: coerce_fillna_def length_preserving_def)
  have step: "\<And>src tgt a b. parse_money_column P src tgt a = Some b \<Longrightarrow> rectangular a n
                \<Longrightarrow> rectangular b n"
  proof -
    fix src tgt a b
    assume h: "parse_money_column P src tgt a = Some b" "rectangular a n"
    from parse_money_column_cases [OF h(1)] show "rectangular b n"
      using h(2) rectangular_getitem [OF h(2)] assms(3)
      by (auto intro!: rectangular_setitem simp: money_values_def money_strings_def coerce_fillna_def length_preserving_def)
  qed
  have r2: "rectangular df2 n" using step [OF s2 r1] .
  have r3: "rectangular df3 n" using step [OF s3 r2] .
  have r4: "rectangular df4 n"
    using fill_total_cases [OF s4] r3 rectangular_getitem [OF r3]
    by (auto dest!: compute_total_cases intro!: rectangular_setitem)
  from format_dates_cases [OF s5] obtain s ds where
    d: "getitem df4 ''date'' = Series s" "to_datetime P s = Some ds" "out = setitem df4 ''date'' (map date_cell ds)"
    by blast
  have "length ds = n"
    using assms(3) d(2) rectangular_getitem [OF r4 d(1)] by (auto simp: length_preserving_def)
  then show ?thesis using d(3) r4 by (simp add: rectangular_setitem setitem_nonempty)
qed

lemma recomputed_rows:
  assumes "recomputed P out" "rectangular out n" "out \<noteq> []"
  shows "list_all (row_total_recomputed P) (to_dict out)"
proof -
  have n: "nrows out = n" using rectangular_nrows [OF assms(2,3)] .
  have "row_total_recomputed P (to_dict out ! i)" if i: "i < n" for i
  proof -
    from assms(1) obtain qv where
      q: "column_is out ''quantity'' (map Num qv)" and
      alt: "(''price'' \<notin> set (columns out) \<and>
             column_is out ''total'' (map (\<lambda>q. product_cell (mul_zero P q)) qv)) \<or>
         (\<exists>pv. column_is out ''price'' (map Num pv) \<and>
               column_is out ''total'' (map2 (\<lambda>q p. product_cell (mul P q p)) qv pv))"
      unfolding recomputed_def by blast
    have lq: "length qv = n" using rectangular_column_is [OF assms(2) q] by simp
    have fq: "map_of (to_dict out ! i) ''quantity'' = Some (Num (qv ! i))"
      using to_dict_lookup [OF q, of i] i n lq by simp
    from alt show ?thesis
    proof
      assume a: "''price'' \<notin> set (columns out) \<and>
             column_is out ''total'' (map (\<lambda>q. product_cell (mul_zero P q)) qv)"
      then have "map_of (to_dict out ! i) ''price'' = None"
        using to_dict_absent [of "''price''" out i] i n by simp
      moreover have "map_of (to_dict out ! i) ''total'' = Some (product_cell (mul_zero P (qv ! i)))"
        using to_dict_lookup [of out "''total''" "map (\<lambda>q. product_cell (mul_zero P q)) qv" i]
          a i n lq by simp
      ultimately show ?thesis using fq by (simp add: row_total_recomputed_def)
    next
      assume "\<exists>pv. column_is out ''price'' (map Num pv) \<and>
               column_is out ''total'' (map2 (\<lambda>q p. product_cell (mul P q p)) qv pv)"
      then obtain pv where p: "column_is out ''price'' (map Num pv)"
        "column_is out ''total'' (map2 (\<lambda>q p. product_cell (mul P q p)) qv pv)" by blast
      have lp: "length pv = n" using rectangular_column_is [OF assms(2) p(1)] by simp
      have "map_of (to_dict out ! i) ''price'' = Some (Num (pv ! i))"
        using to_dict_lookup [OF p(1), of i] i n lp by simp
      moreover have "map_of (to_dict out ! i) ''total'' = Some (product_cell (mul P (qv ! i) (pv ! i)))"
        using to_dict_lookup [OF p(2), of i] i n lp lq by simp
      ultimately show ?thesis using fq by (simp add: row_total_recomputed_def)
    qed
  qed
  then show ?thesis by (simp add: list_all_length length_to_dict n)
qed

lemma column_rows:
  assumes "column_is out k s" "rectangular out n" "out \<noteq> []"
  shows "map (\<lambda>r. map_of r k) (to_dict out) = map Some s"
proof -
  have n: "nrows out = n" using rectangular_nrows [OF assms(2,3)] .
  have l: "length s = n" using rectangular_column_is [OF assms(2,1)] .
  show ?thesis
    by (rule nth_equalityI) (simp_all add: length_to_dict n l to_dict_lookup [OF assms(1)])
qed

lemma absent_rows:
  assumes "k \<notin> set (columns out)"
  shows "list_all (\<lambda>r. map_of r k = None) (to_dict out)"
  using assms by (simp add: list_all_length length_to_dict to_dict_absent)

lemma upload_accepted:
  assumes "snd (upload_file P req store) = store @ [u]" "file_frame req = Some raw"
  shows "\<exists>out. fst (validate_dataframe P (strip_columns raw)) \<and>
           coerce P (standardize_column_names (strip_columns raw)) = Some out \<and>
           data u = to_dict out \<and> currency u = detect_currency (strip_columns raw)"
proof -
  obtain resp where "upload_file P req store = (resp, store @ [u])"
    using assms(1) by (cases "upload_file P req store") auto
  from upload_file_persists [OF this] assms(2) show ?thesis by auto
qed

lemma length_preserving_std_pandas: "length_preserving std_pandas"
  by (auto simp: length_preserving_def std_pandas_def parse_iso_dates_def split: if_splits)

lemma stored_totals:
  assumes "snd (upload_file P req store) = store @ [u]"
    and "file_frame req = Some raw" and "rectangular raw n" and "length_preserving P"
  shows "length (data u) = n \<and>
    (case first_containing ''total'' (standardize_column_names (strip_columns raw)) of
       None \<Rightarrow> list_all (row_total_recomputed P) (data u)
     | Some c \<Rightarrow>
        (case getitem (standardize_column_names (strip_columns raw)) c of
           Series ts \<Rightarrow>
             if sum_is_zero P (money_values P ts)
             then list_all (row_total_recomputed P) (data u)
             else map (\<lambda>r. map_of r ''total'') (data u)
                    = map (\<lambda>v. Some (Num v)) (money_values P ts)
         | _ \<Rightarrow> False))"
proof -
  let ?df = "standardize_column_names (strip_columns raw)"
  from upload_accepted [OF assms(1,2)] obtain out where
    c: "coerce P ?df = Some out" and d: "data u = to_dict out" by blast
  have r: "rectangular out n" and ne: "out \<noteq> []"
    using coerce_rectangular [OF c rectangular_normalized [OF assms(3)] assms(4)] by simp_all
  have len: "length (data u) = n"
    by (simp add: d length_to_dict rectangular_nrows [OF r ne])
  from coerce_total [OF c] have "case first_containing ''total'' ?df of
       None \<Rightarrow> list_all (row_total_recomputed P) (data u)
     | Some c \<Rightarrow>
        (case getitem ?df c of
           Series ts \<Rightarrow>
             if sum_is_zero P (money_values P ts)
             then list_all (row_total_recomputed P) (data u)
             else map (\<lambda>r. map_of r ''total'') (data u)
                    = map (\<lambda>v. Some (Num v)) (money_values P ts)
         | _ \<Rightarrow> False)"
  proof
    assume "first_containing ''total'' ?df = None \<and> recomputed P out"
    then show ?thesis using recomputed_rows [OF _ r ne] by (simp add: d)
  next
    assume "\<exists>c ts. first_containing ''total'' ?df = Some c \<and> getitem ?df c = Series ts \<and>
                 (if sum_is_zero P (money_values P ts) then recomputed P out
                  else column_is out ''total'' (map Num (money_values P ts)))"
    then obtain c ts where t: "first_containing ''total'' ?df = Some c" "getitem ?df c = Series ts"
      "if sum_is_zero P (money_values P ts) then recomputed P out
       else column_is out ''total'' (map Num (money_values P ts))" by blast
    show ?thesis
    proof (cases "sum_is_zero P (money_values P ts)")
      case True
      with t(3) have "recomputed P out" by simp
      then have "list_all (row_total_recomputed P) (data u)"
        using recomputed_rows [OF _ r ne] by (simp add: d)
      with True t(1,2) show ?thesis by simp
    next
      case False
      with t(3) have "column_is out ''total'' (map Num (money_values P ts))" by simp
      from column_rows [OF this r ne]
      have "map (\<lambda>r. map_of r ''total'') (data u) = map (\<lambda>v. Some (Num v)) (money_values P ts)"
        by (simp add: d comp_def)
      with False t(1,2) show ?thesis by simp
    qed
  qed
  with len show ?thesis by simp
qed

lemma stored_price:
  assumes "snd (upload_file P req store) = store @ [u]"
    and "file_frame req = Some raw" and "rectangular raw n" and "length_preserving P"
  shows "case first_containing ''price'' (standardize_column_names (strip_columns raw)) of
       None \<Rightarrow> list_all (\<lambda>r. map_of r ''price'' = None) (data u)
     | Some c \<Rightarrow>
        (case getitem (standardize_column_names (strip_columns raw)) c of
           Series ps \<Rightarrow> map (\<lambda>r. map_of r ''price'') (data u)
                          = map (\<lambda>v. Some (Num v)) (money_values P ps)
         | _ \<Rightarrow> False)"
proof -
  let ?df = "standardize_column_names (strip_columns raw)"
  from upload_accepted [OF assms(1,2)] obtain out where
    c: "coerce P ?df = Some out" and d: "data u = to_dict out" by blast
  have r: "rectangular out n" and ne: "out \<noteq> []"
    using coerce_rectangular [OF c rectangular_normalized [OF assms(3)] assms(4)] by simp_all
  from coerce_price [OF c] show ?thesis
  proof
    assume "first_containing ''price'' ?df = None \<and> ''price'' \<notin> set (columns out)"
    then show ?thesis using absent_rows [of "''price''" out] by (simp add: d)
  next
    assume "\<exists>c ps. first_containing ''price'' ?df = Some c \<and> getitem ?df c = Series ps \<and>
                 column_is out ''price'' (map Num (money_values P ps))"
    then obtain c ps where p: "first_containing ''price'' ?df = Some c" "getitem ?df c = Series ps"
      "column_is out ''price'' (map Num (money_values P ps))" by blast
    from column_rows [OF p(3) r ne]
    have "map (\<lambda>r. map_of r ''price'') (data u) = map (\<lambda>v. Some (Num v)) (money_values P ps)"
      by (simp add: d comp_def)
    with p show ?thesis by simp
  qed
qed

lemma first_match_matched: "first_match cands cols = matched cands cols"
  by (induction cols) (auto simp: matched_def)

lemma matched_Some: "matched cands cols = Some c \<Longrightarrow> c \<in> set cols \<and> lower c \<in> set cands"
  by (auto simp: matched_def find_Some_iff)

lemma columns_strip_columns: "columns (strip_columns df) = map strip (columns df)"
  by (simp add: columns_def strip_columns_def split_beta)

lemma find_columns_possible_names:
  "find_columns possible_names cols =
     (case matched date_names cols of None \<Rightarrow> [] | Some c \<Rightarrow> [(''date'', c)]) @
     (case matched product_names cols of None \<Rightarrow> [] | Some c \<Rightarrow> [(''product'', c)]) @
     (case matched quantity_names cols of None \<Rightarrow> [] | Some c \<Rightarrow> [(''quantity'', c)])"
  by (simp add: possible_names_def date_names_def product_names_def quantity_names_def
      first_match_matched split: option.splits)

lemma date_parses_iff:
  "date_parses P df c = (\<not> (case getitem df c of Series s \<Rightarrow> to_datetime P s = None | _ \<Rightarrow> True))"
  by (simp add: date_parses_def split: item.splits)

lemma quantity_parses_iff:
  "quantity_parses P df c =
     (\<not> (case getitem df c of Series s \<Rightarrow> list_ex (\<lambda>p. p = Bad) (to_numeric P s) | _ \<Rightarrow> True))"
  by (simp add: quantity_parses_def list_ex_iff split: item.splits)

lemma validate_dataframe_conditions: "validate_dataframe P df = checked_conditions P df"
  unfolding validate_dataframe_def checked_conditions_def Let_def columns_strip_columns
    find_columns_possible_names date_parses_iff quantity_parses_iff missing_fields_def
  by (cases "matched date_names (map strip (columns df))";
      cases "matched product_names (map strip (columns df))";
      cases "matched quantity_names (map strip (columns df))")
     (simp_all add: required_def has_price_or_total_def)

lemma rename_quantity: "lower c \<in> set quantity_names \<Longrightarrow> rename c = ''quantity''"
  by (auto simp: rename_def mapping_def quantity_names_def)

lemma validated_quantity:
  assumes "fst (validate_dataframe P df)"
  shows "\<exists>qc s. matched quantity_names (map strip (columns df)) = Some qc \<and>
           getitem (strip_columns df) qc = Series s \<and>
           \<not> list_ex (\<lambda>p. p = Bad) (to_numeric P s)"
  using assms unfolding validate_dataframe_conditions checked_conditions_def Let_def
  by (auto split: if_splits option.splits item.splits)

lemma mem_strip_columns:
  "(c, s) \<in> set (strip_columns df) \<Longrightarrow> \<exists>h. (h, s) \<in> set df \<and> c = strip h"
  by (auto simp: strip_columns_def)

lemma validated_quantity_column:
  assumes "fst (validate_dataframe P (strip_columns raw))"
    and "getitem (standardize_column_names (strip_columns raw)) ''quantity'' = Series qs"
  shows "Bad \<notin> set (to_numeric P qs)"
proof -
  from validated_quantity [OF assms(1)] obtain qc s where
    m: "matched quantity_names (map strip (columns (strip_columns raw))) = Some qc" and
    g: "getitem (strip_columns (strip_columns raw)) qc = Series s" and
    ok: "\<not> list_ex (\<lambda>p. p = Bad) (to_numeric P s)" by blast
  from matched_Some [OF m] have low: "lower qc \<in> set quantity_names" by simp
  from mem_strip_columns [OF getitem_Series_mem [OF g] ] obtain h where
    h: "(h, s) \<in> set (strip_columns raw)" "qc = strip h"
    by blast
  from h(1) have "(rename (strip h), s) \<in> set (standardize_column_names (strip_columns raw))"
    by (force simp: standardize_column_names_def)
  moreover have "rename (strip h) = ''quantity''"
    using low h(2) by (simp add: rename_quantity)
  ultimately have "(''quantity'', s) \<in> set (standardize_column_names (strip_columns raw))" by simp
  with getitem_Series_column_is [OF assms(2)] have "s = qs"
    by (auto simp: column_is_def list_all_iff)
  with ok show ?thesis by (auto simp: list_ex_iff)
qed

lemma stored_quantity:
  assumes "snd (upload_file P req store) = store @ [u]"
    and "file_frame req = Some raw" and "rectangular raw n" and "length_preserving P"
  shows "case getitem (standardize_column_names (strip_columns raw)) ''quantity'' of
       Series qs \<Rightarrow>
         Bad \<notin> set (to_numeric P qs) \<and>
         map (\<lambda>r. map_of r ''quantity'') (data u)
           = map (\<lambda>p. Some (Num (case p of Val v \<Rightarrow> v | _ \<Rightarrow> fill_zero P))) (to_numeric P qs)
     | _ \<Rightarrow> False"
proof -
  let ?df = "standardize_column_names (strip_columns raw)"
  from upload_accepted [OF assms(1,2)] obtain out where
    v: "fst (validate_dataframe P (strip_columns raw))" and
    c: "coerce P ?df = Some out" and d: "data u = to_dict out" by blast
  have r: "rectangular out n" and ne: "out \<noteq> []"
    using coerce_rectangular [OF c rectangular_normalized [OF assms(3)] assms(4)] by simp_all
  from coerce_quantity [OF c] obtain qs where
    q: "getitem ?df ''quantity'' = Series qs"
       "column_is out ''quantity'' (map Num (coerce_fillna P qs))" by blast
  have f: "\<And>p. fillna0 P p = (case p of Val v \<Rightarrow> v | _ \<Rightarrow> fill_zero P)"
    by (simp add: fillna0_def split: parsed.splits)
  from column_rows [OF q(2) r ne]
  have "map (\<lambda>r. map_of r ''quantity'') (data u)
           = map (\<lambda>p. Some (Num (case p of Val v \<Rightarrow> v | _ \<Rightarrow> fill_zero P))) (to_numeric P qs)"
    by (simp add: d coerce_fillna_def comp_def f)
  with validated_quantity_column [OF v q(1)] q(1) show ?thesis by simp
qed

lemma upload_store_cases:
  "snd (upload_file P req store) = store \<or>
   (\<exists>uid fname raw out.
      session_user_id req = Some uid \<and> file_name req = Some fname \<and>
      file_frame req = Some raw \<and>
      fst (validate_dataframe P (strip_columns raw)) \<and>
      coerce P (standardize_column_names (strip_columns raw)) = Some out \<and>
      snd (upload_file P req store) =
        store @ [\<lparr>user_id = uid, filename = fname, data = to_dict out,
                  currency = detect_currency (strip_columns raw)\<rparr>])"
proof (cases "snd (upload_file P req store) = store")
  case True
  then show ?thesis by simp
next
  case False
  obtain resp store' where e: "upload_file P req store = (resp, store')"
    by (cases "upload_file P req store") auto
  with False have "store' \<noteq> store" by simp
  from upload_file_persists [OF e this] e show ?thesis by auto
qed

lemma set_map_filter_Some: "set (List.map_filter f xs) = {y. \<exists>x \<in> set xs. f x = Some y}"
  by (induction xs) (auto simp: map_filter_simps split: option.splits)

lemma set_group_keys: "set (group_keys key df) = {k. \<exists>r \<in> set df. key r = Some k}"
  by (simp add: group_keys_def set_map_filter_Some)

lemma distinct_group_keys: "distinct (group_keys key df)"
  by (simp add: group_keys_def)



lemma generate_charts_cases:
  "generate_charts P G R rows cur = [] \<or>
   (\<exists>df c1 c2 c3 c4 c5.
      chart_frame P G rows = Some df \<and>
      plot_products R cur (length (remdups (map r_product df))) (sales_by_product G df) = Some c1 \<and>
      plot_trend R cur (monthly_sales G df) = Some c2 \<and>
      plot_share R (product_share G df) = Some c3 \<and>
      plot_top R (top_qty G df) = Some c4 \<and>
      plot_weekdays R cur (weekday_sales P G df) = Some c5 \<and>
      generate_charts P G R rows cur =
        [(''sales_by_product'', c1), (''sales_trend'', c2), (''revenue_distribution'', c3),
         (''top_products_qty'', c4), (''weekday_sales'', c5)])"
  by (auto simp: generate_charts_def split: option.splits)

lemma sum_list_delta:
  "distinct ks \<Longrightarrow>
   sum_list (map (\<lambda>k. if a = k then c else 0) ks) = (if a \<in> set ks then c else (0 :: 'n :: comm_monoid_add))"
  by (induction ks) auto

lemma sum_list_groups:
  assumes "distinct ks"
  shows "sum_list (map (\<lambda>k. sum_list (map val (filter (\<lambda>r. key r = Some k) df))) ks)
       = sum_list (map (val :: 'r \<Rightarrow> 'n :: comm_monoid_add) (filter (\<lambda>r. \<exists>k \<in> set ks. key r = Some k) df))"
proof (induction df)
  case Nil
  then show ?case by simp
next
  case (Cons r df)
  have "sum_list (map (\<lambda>k. sum_list (map val (filter (\<lambda>r. key r = Some k) (r # df)))) ks)
      = sum_list (map (\<lambda>k. (if key r = Some k then val r else 0)
                         + sum_list (map val (filter (\<lambda>r. key r = Some k) df))) ks)"
    by (rule arg_cong [where f = sum_list]) simp
  also have "\<dots> = sum_list (map (\<lambda>k. if key r = Some k then val r else 0) ks)
                 + sum_list (map (\<lambda>k. sum_list (map val (filter (\<lambda>r. key r = Some k) df))) ks)"
    by (simp add: sum_list_addf)
  also have "sum_list (map (\<lambda>k. if key r = Some k then val r else 0) ks)
           = (if \<exists>k \<in> set ks. key r = Some k then val r else 0)"
  proof (cases "key r")
    case None
    then show ?thesis by simp
  next
    case (Some a)
    then show ?thesis using sum_list_delta [OF assms, of a "val r"] by auto
  qed
  finally show ?case using Cons.IH by simp
qed

lemma sum_list_present:
  "sum_list (present vs) = sum_list (map (\<lambda>v. case v of Some x \<Rightarrow> x | None \<Rightarrow> (0 :: 'n :: comm_monoid_add)) vs)"
  by (induction vs) (auto simp: present_def map_filter_simps split: option.splits)

lemma sum_groupby_sum:
  assumes "exact_sums G"
  shows "sum_list (present (map snd (groupby_sum G key val df)))
       = sum_list (present (map val (filter (\<lambda>r. key r \<noteq> None) df)))"
proof -
  let ?v = "\<lambda>r. case val r of Some x \<Rightarrow> x | None \<Rightarrow> 0"
  have g: "\<And>vs. group_sum G vs = Some (sum_list (present vs))"
    using assms by (simp add: exact_sums_def)
  have "sum_list (present (map snd (groupby_sum G key val df)))
      = sum_list (map (\<lambda>k. sum_list (map ?v (filter (\<lambda>r. key r = Some k) df))) (group_keys key df))"
    by (simp add: groupby_sum_def comp_def g sum_list_present)
  also have "\<dots> = sum_list (map ?v (filter (\<lambda>r. \<exists>k \<in> set (group_keys key df). key r = Some k) df))"
    by (rule sum_list_groups [OF distinct_group_keys])
  also have "filter (\<lambda>r. \<exists>k \<in> set (group_keys key df). key r = Some k) df
           = filter (\<lambda>r. key r \<noteq> None) df"
    by (rule filter_cong) (auto simp: set_group_keys)
  finally show ?thesis by (simp add: sum_list_present comp_def)
qed

lemma sum_list_mset_cong:
  "mset xs = mset ys \<Longrightarrow> sum_list (map f xs) = sum_list (map (f :: 'a \<Rightarrow> 'n :: comm_monoid_add) ys)"
  by (metis mset_map sum_mset_sum_list)

lemma sum_present_mset_cong:
  assumes "mset xs = mset ys"
  shows "sum_list (present (map snd xs)) = (sum_list (present (map snd ys)) :: 'n :: comm_monoid_add)"
  using sum_list_mset_cong [OF assms, of "\<lambda>x. case snd x of Some v \<Rightarrow> v | None \<Rightarrow> 0"]
  by (simp add: sum_list_present comp_def)







section \<open>The claims\<close>

lemma upload_scenario_a:
  "snd (upload_file std_pandas (request_for ''a.csv'' scenario_a) []) = [] @ [scenario_a_upload]"
  by code_simp

lemma upload_scenario_e:
  "snd (upload_file std_pandas (request_for ''e.csv'' scenario_e) []) = [] @ [scenario_e_upload]"
  by code_simp

lemma upload_discounted:
  "snd (upload_file std_pandas (request_for ''k.csv'' discounted) []) = [] @ [discounted_upload]"
  by code_simp

lemma upload_blank_quantity:
  "snd (upload_file std_pandas (request_for ''q.csv'' blank_quantity) []) = [] @ [blank_quantity_upload]"
  by code_simp

lemma file_frame_request_for: "file_frame (request_for name df) = Some df"
  by (simp add: request_for_def)

text \<open>
  Claim C1. For every accepted table (one whose upload is stored), with one stored row per
  source row: if the renamed table has no column whose label contains \<open>total\<close>, or the
  sum of the parsed cells of that column equals 0, every stored row's total is the product
  of its quantity and its price (of its quantity and 0 when there is no price field); if
  the sum is not 0, every stored total is the parsed source cell, zero entries included.
  The sum, its comparison with 0 and the product are the library's.
\<close>

theorem total_recomputed_or_kept:
  assumes "snd (upload_file P req store) = store @ [u]"
    and "file_frame req = Some raw" and "rectangular raw n" and "length_preserving P"
  shows "length (data u) = n \<and>
    (case first_containing ''total'' (standardize_column_names (strip_columns raw)) of
       None \<Rightarrow> list_all (row_total_recomputed P) (data u)
     | Some c \<Rightarrow>
        (case getitem (standardize_column_names (strip_columns raw)) c of
           Series ts \<Rightarrow>
             if sum_is_zero P (money_values P ts)
             then list_all (row_total_recomputed P) (data u)
             else map (\<lambda>r. map_of r ''total'') (data u)
                    = map (\<lambda>v. Some (Num v)) (money_values P ts)
         | _ \<Rightarrow> False))"
  using stored_totals [OF assms] .

text \<open>
  Three tables: without a total column (scenario A), with an all-zero total column
  (scenario E), and with source totals 1900 and 0 that differ from quantity times price.
\<close>

theorem total_recomputed_or_kept_witness:
  "snd (upload_file std_pandas (request_for ''a.csv'' scenario_a) []) = [] @ [scenario_a_upload]
   \<and> rectangular scenario_a 1
   \<and> snd (upload_file std_pandas (request_for ''e.csv'' scenario_e) []) = [] @ [scenario_e_upload]
   \<and> rectangular scenario_e 2
   \<and> snd (upload_file std_pandas (request_for ''k.csv'' discounted) []) = [] @ [discounted_upload]
   \<and> rectangular discounted 2
   \<and> length_preserving std_pandas
   \<and> list_all (row_total_recomputed std_pandas) (data scenario_a_upload)
   \<and> map_of (hd (data scenario_a_upload)) ''total'' = Some (Num 30)
   \<and> list_all (row_total_recomputed std_pandas) (data scenario_e_upload)
   \<and> map_of (hd (data scenario_e_upload)) ''total'' = Some (Num 100)
   \<and> map (\<lambda>r. map_of r ''total'') (data discounted_upload) = [Some (Num 1900), Some (Num 0)]"
proof -
  note lp = length_preserving_std_pandas
  have ra: "rectangular scenario_a 1" and re: "rectangular scenario_e 2"
    and rk: "rectangular discounted 2" by code_simp+
  have ca: "first_containing ''total'' (standardize_column_names (strip_columns scenario_a)) = None"
    by code_simp
  have ce: "first_containing ''total'' (standardize_column_names (strip_columns scenario_e))
              = Some ''total''" by code_simp
  have ge: "getitem (standardize_column_names (strip_columns scenario_e)) ''total''
              = Series [Num 0, Num 0]" by code_simp
  have se: "sum_is_zero std_pandas (money_values std_pandas [Num 0, Num 0]) = True" by code_simp
  have ck: "first_containing ''total'' (standardize_column_names (strip_columns discounted))
              = Some ''total''" by code_simp
  have gk: "getitem (standardize_column_names (strip_columns discounted)) ''total''
              = Series [Str ''$1,900'', Str ''$0'']" by code_simp
  have sk: "sum_is_zero std_pandas (money_values std_pandas [Str ''$1,900'', Str ''$0'']) = False"
    by code_simp
  have vk: "map (\<lambda>v. Some (Num v)) (money_values std_pandas [Str ''$1,900'', Str ''$0''])
              = [Some (Num 1900), Some (Num 0)]" by code_simp
  from total_recomputed_or_kept [OF upload_scenario_a file_frame_request_for ra lp]
  have a: "list_all (row_total_recomputed std_pandas) (data scenario_a_upload)"
    by (simp only: ca option.case)
  from total_recomputed_or_kept [OF upload_scenario_e file_frame_request_for re lp]
  have e: "list_all (row_total_recomputed std_pandas) (data scenario_e_upload)"
    by (simp only: ce ge se option.case item.case if_True)
  from total_recomputed_or_kept [OF upload_discounted file_frame_request_for rk lp]
  have k: "map (\<lambda>r. map_of r ''total'') (data discounted_upload) = [Some (Num 1900), Some (Num 0)]"
    by (simp only: ck gk sk vk option.case item.case if_False)
  have ta: "map_of (hd (data scenario_a_upload)) ''total'' = Some (Num 30)" by code_simp
  have te: "map_of (hd (data scenario_e_upload)) ''total'' = Some (Num 100)" by code_simp
  from upload_scenario_a ra upload_scenario_e re upload_discounted rk lp a ta e te k
  show ?thesis by blast
qed

text \<open>
  Claim C2. The claim: every record produced for an accepted table has a total that is
  not null. The code at the table with the single row of quantity \<open>inf\<close> and price 0:
  the validator accepts it, the upload is stored, and the total of the stored record is
  missing, since the recomputed total is the product of infinity and 0, a NaN, and no
  \<^verbatim>\<open>fillna\<close> follows the multiplication as it follows every parse.
\<close>

theorem infinite_quantity_total_missing:
  "validate_dataframe std_pandas infinite_quantity = (True, [])
   \<and> snd (upload_file std_pandas (request_for ''i.csv'' infinite_quantity) [])
        = [infinite_quantity_upload]
   \<and> map (\<lambda>r. map_of r ''total'') (data infinite_quantity_upload) = [Some Blank]"
  by code_simp

text \<open>
  Claim C3, as the specification words it, against the code: the headers \<open> Date\<close>,
  \<open>Product \<close>, \<open>Quantity\<close>, \<open>Price\<close> match only the quantity field when compared as they
  are, while the validator, which trims every header first, accepts the table.
\<close>

theorem validator_trims_headers_counterexample:
  "validate_dataframe std_pandas padded_headers = (True, [])
   \<and> spec_validate std_pandas padded_headers = (False, ''Missing required columns: date, product'')"
  by code_simp

text \<open>
  Claim C3, as amended. The validator first strips the surrounding whitespace of every
  header, then evaluates three conditions in this order and answers with the message of the
  first that fails: (1) some of date, product, quantity has no header whose lowercased form
  is one of its synonyms: the message names exactly the fields without a match, in that
  order; (2) no header contains \<open>price\<close> or \<open>total\<close> in any letter case; (3) the date
  parser raises on the matched date column, or the numeric parser raises on the matched
  quantity column (a missing cell raises in neither; a matched label carried by several
  columns raises); otherwise the table passes.
\<close>

theorem validate_dataframe_ordered_conditions:
  "validate_dataframe P df = checked_conditions P df"
  by (rule validate_dataframe_conditions)

theorem validate_dataframe_ordered_conditions_witness:
  "validate_dataframe std_pandas scenario_c = (False, ''Missing required columns: quantity'')
   \<and> validate_dataframe std_pandas scenario_b = (False, ''Missing price or total column'')
   \<and> validate_dataframe std_pandas bad_quantity = (False, ''Invalid date or quantity format'')
   \<and> validate_dataframe std_pandas blank_quantity = (True, [])
   \<and> validate_dataframe std_pandas padded_headers = (True, [])"
proof -
  have c: "checked_conditions std_pandas scenario_c = (False, ''Missing required columns: quantity'')"
    by code_simp
  have b: "checked_conditions std_pandas scenario_b = (False, ''Missing price or total column'')"
    by code_simp
  have q: "checked_conditions std_pandas bad_quantity = (False, ''Invalid date or quantity format'')"
    by code_simp
  have k: "checked_conditions std_pandas blank_quantity = (True, [])" by code_simp
  have p: "checked_conditions std_pandas padded_headers = (True, [])" by code_simp
  show ?thesis
    using validate_dataframe_ordered_conditions [of std_pandas scenario_c, unfolded c]
      validate_dataframe_ordered_conditions [of std_pandas scenario_b, unfolded b]
      validate_dataframe_ordered_conditions [of std_pandas bad_quantity, unfolded q]
      validate_dataframe_ordered_conditions [of std_pandas blank_quantity, unfolded k]
      validate_dataframe_ordered_conditions [of std_pandas padded_headers, unfolded p]
    by blast
qed

text \<open>
  Claim C4. Currency detection returns KSH exactly when some header of the table contains
  \<open>ksh\<close> in any letter case, and USD otherwise; it reads the headers only, so two tables
  with the same headers get the same currency; and the currency stored with an upload is
  the one detected on the original headers of the uploaded table, before they are renamed.
\<close>

theorem detect_currency_header_driven:
  "detect_currency df =
     (if list_ex (\<lambda>h. contains ''ksh'' (lower h)) (columns df) then ''KSH'' else ''USD'')
   \<and> (columns df = columns df2 \<longrightarrow> detect_currency df = detect_currency df2)
   \<and> (snd (upload_file P req store) = store @ [u] \<longrightarrow>
        (\<exists>raw. file_frame req = Some raw \<and> currency u = detect_currency raw))"
proof -
  have a: "detect_currency df =
     (if list_ex (\<lambda>h. contains ''ksh'' (lower h)) (columns df) then ''KSH'' else ''USD'')"
    by (simp add: detect_currency_def list_ex_iff)
  have b: "columns df = columns df2 \<longrightarrow> detect_currency df = detect_currency df2"
    by (simp add: detect_currency_def)
  have c: "snd (upload_file P req store) = store @ [u] \<longrightarrow>
        (\<exists>raw. file_frame req = Some raw \<and> currency u = detect_currency raw)"
  proof
    assume h: "snd (upload_file P req store) = store @ [u]"
    then obtain resp where "upload_file P req store = (resp, store @ [u])"
      by (cases "upload_file P req store") auto
    from upload_file_persists [OF this]
    obtain raw where "file_frame req = Some raw"
      "currency u = detect_currency (strip_columns raw)" by auto
    then show "\<exists>raw. file_frame req = Some raw \<and> currency u = detect_currency raw"
      by (simp add: detect_currency_strip)
  qed
  from a b c show ?thesis by blast
qed

theorem detect_currency_header_driven_witness:
  "columns scenario_a = columns [(''Date'', []), (''Item'', []), (''Qty'', []), (''Price (KSH)'', [])]
   \<and> snd (upload_file std_pandas (request_for ''a.csv'' scenario_a) [])
        = [] @ [scenario_a_upload]
   \<and> detect_currency scenario_a = ''KSH''
   \<and> detect_currency scenario_a
        = detect_currency [(''Date'', []), (''Item'', []), (''Qty'', []), (''Price (KSH)'', [])]
   \<and> (\<exists>raw. file_frame (request_for ''a.csv'' scenario_a) = Some raw
          \<and> currency scenario_a_upload = detect_currency raw)"
proof -
  note t = detect_currency_header_driven [of scenario_a
      "[(''Date'', []), (''Item'', []), (''Qty'', []), (''Price (KSH)'', [])]"
      std_pandas "request_for ''a.csv'' scenario_a" "[]" scenario_a_upload]
  have h: "columns scenario_a = columns [(''Date'', []), (''Item'', []), (''Qty'', []), (''Price (KSH)'', [])]"
    by code_simp
  have e: "list_ex (\<lambda>h. contains ''ksh'' (lower h)) (columns scenario_a)" by code_simp
  from t have "detect_currency scenario_a =
     (if list_ex (\<lambda>h. contains ''ksh'' (lower h)) (columns scenario_a) then ''KSH'' else ''USD'')"
    by blast
  with e have a: "detect_currency scenario_a = ''KSH''" by (simp only: if_True)
  from t h have b: "detect_currency scenario_a
        = detect_currency [(''Date'', []), (''Item'', []), (''Qty'', []), (''Price (KSH)'', [])]"
    by blast
  from t upload_scenario_a have c: "\<exists>raw. file_frame (request_for ''a.csv'' scenario_a) = Some raw
          \<and> currency scenario_a_upload = detect_currency raw" by blast
  from h upload_scenario_a a b c show ?thesis by blast
qed

text \<open>
  Detection on the renamed headers would miss the currency: \<open>Price (KSH)\<close> is renamed
  to \<open>price\<close>.
\<close>

lemma detection_after_renaming_example:
  "detect_currency (standardize_column_names scenario_a) = ''USD''"
  by code_simp

lemma upload_comma_price:
  "snd (upload_file std_pandas (request_for ''c.csv'' comma_price) []) = [] @ [comma_price_upload]"
  by code_simp

text \<open>
  Claim C5, as the specification words it, against the code: the price cell \<open>1,000\<close> has
  no leading \<open>$\<close> or comma, so stripping leading characters leaves it as it is, it does not
  parse, and the rule gives 0; the code stores 1000.
\<close>

theorem money_rule_counterexample:
  "snd (upload_file std_pandas (request_for ''c.csv'' comma_price) []) = [comma_price_upload]
   \<and> getitem (standardize_column_names (strip_columns comma_price)) ''price'' = Series [Str ''1,000'']
   \<and> map (\<lambda>r. map_of r ''price'') (data comma_price_upload) = [Some (Num 1000)]
   \<and> spec_money_values std_pandas [Str ''1,000''] = [0]"
proof -
  have g: "getitem (standardize_column_names (strip_columns comma_price)) ''price''
             = Series [Str ''1,000'']" by code_simp
  have p: "map (\<lambda>r. map_of r ''price'') (data comma_price_upload) = [Some (Num 1000)]"
    by code_simp
  have s: "spec_money_values std_pandas [Str ''1,000''] = [0]" by code_simp
  from upload_comma_price g p s show ?thesis by simp
qed

text \<open>
  Claim C5, as amended. For every accepted table: when a column whose label contains
  \<open>price\<close> exists, the stored price of each row is the value of its source cell under
  this rule: the cell is written as text, every \<open>$\<close> and every comma is deleted from it
  wherever it stands, the rest is parsed by the library as a number, and a result that
  does not parse or is missing becomes 0; without such a column the records have no price
  field. When a column whose label contains \<open>total\<close> exists, the stored totals are the
  values of its cells under the same rule, unless the library sum of these values is 0.
\<close>

theorem money_columns_parsed:
  assumes "snd (upload_file P req store) = store @ [u]"
    and "file_frame req = Some raw" and "rectangular raw n" and "length_preserving P"
  shows "(case first_containing ''price'' (standardize_column_names (strip_columns raw)) of
       None \<Rightarrow> list_all (\<lambda>r. map_of r ''price'' = None) (data u)
     | Some c \<Rightarrow>
        (case getitem (standardize_column_names (strip_columns raw)) c of
           Series ps \<Rightarrow> map (\<lambda>r. map_of r ''price'') (data u)
                          = map (\<lambda>v. Some (Num v)) (money_values P ps)
         | _ \<Rightarrow> False))
   \<and> (case first_containing ''total'' (standardize_column_names (strip_columns raw)) of
       None \<Rightarrow> True
     | Some c \<Rightarrow>
        (case getitem (standardize_column_names (strip_columns raw)) c of
           Series ts \<Rightarrow>
             if sum_is_zero P (money_values P ts) then True
             else map (\<lambda>r. map_of r ''total'') (data u)
                    = map (\<lambda>v. Some (Num v)) (money_values P ts)
         | _ \<Rightarrow> False))
   \<and> money_values P cells =
       map (\<lambda>p. case p of Val v \<Rightarrow> v | _ \<Rightarrow> fill_zero P)
         (to_numeric P
            (map (\<lambda>c. Str (filter (\<lambda>ch. ch \<noteq> CHR ''$'' \<and> ch \<noteq> CHR '','') (cell_str P c))) cells))"
proof -
  have f: "fillna0 P = (\<lambda>p. case p of Val v \<Rightarrow> v | _ \<Rightarrow> fill_zero P)"
    by (rule ext) (simp add: fillna0_def split: parsed.splits)
  have m: "money_values P cells =
       map (\<lambda>p. case p of Val v \<Rightarrow> v | _ \<Rightarrow> fill_zero P)
         (to_numeric P
            (map (\<lambda>c. Str (filter (\<lambda>ch. ch \<noteq> CHR ''$'' \<and> ch \<noteq> CHR '','') (cell_str P c))) cells))"
    by (simp add: money_values_def money_strings_def strip_money_def coerce_fillna_def f comp_def)
  from stored_totals [OF assms]
  have t: "case first_containing ''total'' (standardize_column_names (strip_columns raw)) of
       None \<Rightarrow> True
     | Some c \<Rightarrow>
        (case getitem (standardize_column_names (strip_columns raw)) c of
           Series ts \<Rightarrow>
             if sum_is_zero P (money_values P ts) then True
             else map (\<lambda>r. map_of r ''total'') (data u)
                    = map (\<lambda>v. Some (Num v)) (money_values P ts)
         | _ \<Rightarrow> False)"
    by (auto split: option.splits item.splits if_splits)
  from stored_price [OF assms] t m show ?thesis by blast
qed

text \<open>
  A table with the prices \<open>$1,000\<close> and \<open>20\<close> and the totals \<open>$1,900\<close> and \<open>$0\<close>,
  which are not quantity times price.
\<close>

theorem money_columns_parsed_witness:
  "snd (upload_file std_pandas (request_for ''k.csv'' discounted) []) = [] @ [discounted_upload]
   \<and> file_frame (request_for ''k.csv'' discounted) = Some discounted
   \<and> rectangular discounted 2 \<and> length_preserving std_pandas
   \<and> map (\<lambda>r. map_of r ''price'') (data discounted_upload) = [Some (Num 1000), Some (Num 20)]
   \<and> map (\<lambda>r. map_of r ''total'') (data discounted_upload) = [Some (Num 1900), Some (Num 0)]
   \<and> money_values std_pandas [Str ''$1,000'', Str ''20''] = [1000, 20]"
proof -
  note lp = length_preserving_std_pandas
  have f: "file_frame (request_for ''k.csv'' discounted) = Some discounted"
    by (rule file_frame_request_for)
  have r: "rectangular discounted 2" by code_simp
  have cp: "first_containing ''price'' (standardize_column_names (strip_columns discounted))
              = Some ''price''" by code_simp
  have gp: "getitem (standardize_column_names (strip_columns discounted)) ''price''
              = Series [Str ''$1,000'', Str ''20'']" by code_simp
  have ct: "first_containing ''total'' (standardize_column_names (strip_columns discounted))
              = Some ''total''" by code_simp
  have gt: "getitem (standardize_column_names (strip_columns discounted)) ''total''
              = Series [Str ''$1,900'', Str ''$0'']" by code_simp
  have st: "sum_is_zero std_pandas (money_values std_pandas [Str ''$1,900'', Str ''$0'']) = False"
    by code_simp
  have vp: "map (\<lambda>v. Some (Num v)) (money_values std_pandas [Str ''$1,000'', Str ''20''])
              = [Some (Num 1000), Some (Num 20)]" by code_simp
  have vt: "map (\<lambda>v. Some (Num v)) (money_values std_pandas [Str ''$1,900'', Str ''$0''])
              = [Some (Num 1900), Some (Num 0)]" by code_simp
  have mv: "map (\<lambda>p. case p of Val v \<Rightarrow> v | _ \<Rightarrow> fill_zero std_pandas)
         (to_numeric std_pandas
            (map (\<lambda>c. Str (filter (\<lambda>ch. ch \<noteq> CHR ''$'' \<and> ch \<noteq> CHR '','') (cell_str std_pandas c)))
               [Str ''$1,000'', Str ''20''])) = [1000, 20]" by code_simp
  from money_columns_parsed [OF upload_discounted f r lp, of "[Str ''$1,000'', Str ''20'']"]
  have "map (\<lambda>r. map_of r ''price'') (data discounted_upload) = [Some (Num 1000), Some (Num 20)]
   \<and> map (\<lambda>r. map_of r ''total'') (data discounted_upload) = [Some (Num 1900), Some (Num 0)]
   \<and> money_values std_pandas [Str ''$1,000'', Str ''20''] = [1000, 20]"
    by (simp only: cp gp ct gt st vp vt mv option.case item.case if_False)
  with upload_discounted f r lp show ?thesis by blast
qed


lemma chart_frame_january:
  "chart_frame std_pandas std_groupby january_rows = Some january_frame"
  by code_simp


lemma chart_frame_blank_product:
  "chart_frame std_pandas std_groupby blank_product_rows = Some blank_product_frame"
  by code_simp

lemma emitted_chart:
  assumes "map_of (generate_charts P G R rows cur) name = Some img"
  shows "\<exists>df c1 c2 c3 c4 c5.
      chart_frame P G rows = Some df \<and>
      plot_products R cur (length (remdups (map r_product df))) (sales_by_product G df) = Some c1 \<and>
      plot_trend R cur (monthly_sales G df) = Some c2 \<and>
      plot_share R (product_share G df) = Some c3 \<and>
      plot_top R (top_qty G df) = Some c4 \<and>
      plot_weekdays R cur (weekday_sales P G df) = Some c5 \<and>
      generate_charts P G R rows cur =
        [(''sales_by_product'', c1), (''sales_trend'', c2), (''revenue_distribution'', c3),
         (''top_products_qty'', c4), (''weekday_sales'', c5)]"
proof -
  from assms have "generate_charts P G R rows cur \<noteq> []" by auto
  with generate_charts_cases [of P G R rows cur] show ?thesis by blast
qed





lemma exact_sums_std_groupby: "exact_sums std_groupby"
  by (simp add: exact_sums_def std_groupby_def present_def)

lemma sort_permutes_std_groupby: "sort_permutes std_groupby"
  by (simp add: sort_permutes_def std_groupby_def)

lemma revenue_sums_agree:
  fixes G :: "('k::linorder, 'n::comm_monoid_add) groupby"
  assumes "list_all (\<lambda>r. r_product r \<noteq> None \<and> r_date r \<noteq> None) df"
    and "exact_sums G" and "sort_permutes G"
  shows "product_revenue_sum G df = grand_total df \<and> monthly_revenue_sum G df = grand_total df"
proof -
  from assms(1) have p: "filter (\<lambda>r. r_product r \<noteq> None) df = df"
    and m: "filter (\<lambda>r. map_option to_period_M (r_date r) \<noteq> None) df = df"
    by (simp_all add: list_all_iff)
  from assms(3) have "mset (sort_values_asc G (groupby_sum G r_product r_total df))
      = mset (groupby_sum G r_product r_total df)" by (simp add: sort_permutes_def)
  from sum_present_mset_cong [OF this]
  have "product_revenue_sum G df
      = sum_list (present (map snd (groupby_sum G r_product r_total df)))"
    by (simp add: product_revenue_sum_def sales_by_product_def)
  also have "\<dots> = grand_total df"
    using sum_groupby_sum [OF assms(2), of r_product r_total df, unfolded p]
    by (simp only: grand_total_def)
  finally have a: "product_revenue_sum G df = grand_total df" .
  have b: "monthly_revenue_sum G df = grand_total df"
    using sum_groupby_sum [OF assms(2), of "\<lambda>r. map_option to_period_M (r_date r)" r_total df,
        unfolded m]
    by (simp only: grand_total_def monthly_revenue_sum_def monthly_sales_def)
  from a b show ?thesis by simp
qed

text \<open>
  Claim C7 against the code: a table with an empty product cell is accepted and stored;
  from the stored rows the charts are produced, the revenue per product sums to 20 (the row
  without a product belongs to no group), the revenue per month to 50, the totals to 50.
\<close>

theorem revenue_views_counterexample:
  "snd (upload_file std_pandas (request_for ''b.csv'' blank_product) [])
     = [stored_as ''b.csv'' ''USD'' blank_product_rows]
   \<and> map fst (generate_charts std_pandas std_groupby std_renderer blank_product_rows ''USD'')
       = [''sales_by_product'', ''sales_trend'', ''revenue_distribution'', ''top_products_qty'',
          ''weekday_sales'']
   \<and> map_option (product_revenue_sum std_groupby)
        (chart_frame std_pandas std_groupby blank_product_rows) = Some 20
   \<and> map_option (monthly_revenue_sum std_groupby)
        (chart_frame std_pandas std_groupby blank_product_rows) = Some 50
   \<and> map_option grand_total (chart_frame std_pandas std_groupby blank_product_rows) = Some 50"
proof -
  have u: "snd (upload_file std_pandas (request_for ''b.csv'' blank_product) [])
     = [stored_as ''b.csv'' ''USD'' blank_product_rows]" by code_simp
  have g: "map fst (generate_charts std_pandas std_groupby std_renderer blank_product_rows ''USD'')
       = [''sales_by_product'', ''sales_trend'', ''revenue_distribution'', ''top_products_qty'',
          ''weekday_sales'']"
    by (simp add: generate_charts_def chart_frame_blank_product std_renderer_def)
  have a: "product_revenue_sum std_groupby blank_product_frame = 20" by code_simp
  have b: "monthly_revenue_sum std_groupby blank_product_frame = 50" by code_simp
  have c: "grand_total blank_product_frame = 50" by code_simp
  from u g a b c show ?thesis by (simp only: chart_frame_blank_product option.map simp_thms)
qed

text \<open>
  Claim C7, as amended. When the charts are produced, the revenue per product and the
  revenue per month are drawn from the frame built from the rows (every row carries date,
  product, quantity, price and total, and the dates parse; the totals are recomputed as
  quantity times price when all are missing or all are 0). If every row of that frame has
  a product and a date, the sum of a group is the exact sum of its values that are not
  missing, and sorting only reorders a series, then the revenues per product, summed over
  the products, and the revenues per month, summed over the months, both equal the sum of
  the totals of all rows that are not missing.
\<close>

theorem revenue_views_consistent:
  fixes G :: "('k::linorder, 'n::{comm_monoid_add,linorder}) groupby"
  assumes "map_of (generate_charts P G R rows cur) ''sales_by_product'' = Some img"
    and "exact_sums G" and "sort_permutes G"
  shows "\<exists>df img2. chart_frame P G rows = Some df \<and>
     plot_products R cur (length (remdups (map r_product df))) (sales_by_product G df) = Some img \<and>
     plot_trend R cur (monthly_sales G df) = Some img2 \<and>
     map_of (generate_charts P G R rows cur) ''sales_trend'' = Some img2 \<and>
     (if list_all (\<lambda>r. r_product r \<noteq> None \<and> r_date r \<noteq> None) df
      then product_revenue_sum G df = grand_total df \<and> monthly_revenue_sum G df = grand_total df
      else True)"
proof -
  from emitted_chart [OF assms(1)] obtain df c1 c2 c3 c4 c5 where
    f: "chart_frame P G rows = Some df" and
    p1: "plot_products R cur (length (remdups (map r_product df))) (sales_by_product G df) = Some c1"
    and p2: "plot_trend R cur (monthly_sales G df) = Some c2" and
    g: "generate_charts P G R rows cur =
        [(''sales_by_product'', c1), (''sales_trend'', c2), (''revenue_distribution'', c3),
         (''top_products_qty'', c4), (''weekday_sales'', c5)]" by blast
  from assms(1) g have c: "c1 = img" by simp
  from g have t: "map_of (generate_charts P G R rows cur) ''sales_trend'' = Some c2" by simp
  have "if list_all (\<lambda>r. r_product r \<noteq> None \<and> r_date r \<noteq> None) df
      then product_revenue_sum G df = grand_total df \<and> monthly_revenue_sum G df = grand_total df
      else True"
    using revenue_sums_agree [OF _ assms(2,3), of df] by simp
  with f p1 p2 t c show ?thesis by blast
qed

text \<open>Three sales of two products in one month: 30 + 20 + 20.\<close>

theorem revenue_views_consistent_witness:
  "map_of (generate_charts std_pandas std_groupby std_renderer january_rows ''USD'')
     ''sales_by_product'' = Some ()
   \<and> exact_sums std_groupby \<and> sort_permutes std_groupby
   \<and> (\<exists>df. chart_frame std_pandas std_groupby january_rows = Some df
         \<and> list_all (\<lambda>r. r_product r \<noteq> None \<and> r_date r \<noteq> None) df
         \<and> product_revenue_sum std_groupby df = 70
         \<and> monthly_revenue_sum std_groupby df = 70
         \<and> grand_total df = 70)"
proof -
  let ?df = "january_frame"
  have e: "map_of (generate_charts std_pandas std_groupby std_renderer january_rows ''USD'')
     ''sales_by_product'' = Some ()"
    by (simp add: generate_charts_def chart_frame_january std_renderer_def)
  have a: "list_all (\<lambda>r. r_product r \<noteq> None \<and> r_date r \<noteq> None) ?df" by code_simp
  have t: "grand_total ?df = 70" by code_simp
  from revenue_views_consistent [OF e exact_sums_std_groupby sort_permutes_std_groupby]
  obtain df where
    f: "chart_frame std_pandas std_groupby january_rows = Some df" and
    s: "if list_all (\<lambda>r. r_product r \<noteq> None \<and> r_date r \<noteq> None) df
      then product_revenue_sum std_groupby df = grand_total df
           \<and> monthly_revenue_sum std_groupby df = grand_total df
      else True" by blast
  from f chart_frame_january have d: "df = ?df" by simp
  from s a t have "product_revenue_sum std_groupby df = 70 \<and> monthly_revenue_sum std_groupby df = 70"
    unfolding d by (simp only: if_True)
  with e f a t d exact_sums_std_groupby sort_permutes_std_groupby show ?thesis by blast
qed




text \<open>
  Claim C9. The claim: an upload on which any error occurs leaves the store unchanged. The
  code at the table with the headers \<open>Date\<close>, \<open>Product\<close>, \<open>Item\<close>, \<open>Quantity\<close>,
  \<open>Price\<close> and one row: validation and coercion succeed and the record is committed; the
  statistics of the response are computed after the commit, inside the same \<^verbatim>\<open>try\<close>
  block, and \<^verbatim>\<open>int(df['product'].nunique())\<close> raises there, since both \<open>Product\<close> and
  \<open>Item\<close> were renamed to \<open>product\<close>; the request is answered with the error
  \<open>Processing failed\<close>, status 500, and the record stays in the store.
\<close>

theorem upload_commits_before_failure:
  "upload_file std_pandas (request_for ''p.csv'' two_product_labels) []
     = (Error ''Processing failed'' 500, [two_product_labels_upload])"
  by code_simp

text \<open>
  Claim C10, as the specification words it, against the code: the table with the
  quantities 3 and an empty cell passes the validator, and the empty cell is stored as 0
  by the fallback of the quantity parse.
\<close>

theorem quantity_fallback_counterexample:
  "validate_dataframe std_pandas blank_quantity = (True, [])
   \<and> getitem (standardize_column_names (strip_columns blank_quantity)) ''quantity''
        = Series [Num 3, Blank]
   \<and> to_numeric std_pandas [Num 3, Blank] = [Val 3, NaN]
   \<and> snd (upload_file std_pandas (request_for ''q.csv'' blank_quantity) [])
        = [blank_quantity_upload]
   \<and> map (\<lambda>r. map_of r ''quantity'') (data blank_quantity_upload) = [Some (Num 3), Some (Num 0)]"
proof -
  have v: "validate_dataframe std_pandas blank_quantity = (True, [])" by code_simp
  have g: "getitem (standardize_column_names (strip_columns blank_quantity)) ''quantity''
        = Series [Num 3, Blank]" by code_simp
  have n: "to_numeric std_pandas [Num 3, Blank] = [Val 3, NaN]" by code_simp
  have q: "map (\<lambda>r. map_of r ''quantity'') (data blank_quantity_upload)
             = [Some (Num 3), Some (Num 0)]" by code_simp
  from v g n upload_blank_quantity q show ?thesis by simp
qed

text \<open>
  Claim C10, as amended. For every accepted table, the numeric parser raises on no cell of
  the quantity column (the validator has rejected such tables), and the stored quantity of
  a row is the number the library's numeric parse gives for its source cell; a missing
  quantity, which the validator lets pass and the parse gives as NaN, is stored as 0.
\<close>

theorem quantity_parsed_or_blank:
  assumes "snd (upload_file P req store) = store @ [u]"
    and "file_frame req = Some raw" and "rectangular raw n" and "length_preserving P"
  shows "case getitem (standardize_column_names (strip_columns raw)) ''quantity'' of
       Series qs \<Rightarrow>
         Bad \<notin> set (to_numeric P qs) \<and>
         map (\<lambda>r. map_of r ''quantity'') (data u)
           = map (\<lambda>p. Some (Num (case p of Val v \<Rightarrow> v | _ \<Rightarrow> fill_zero P))) (to_numeric P qs)
     | _ \<Rightarrow> False"
  using stored_quantity [OF assms] .

theorem quantity_parsed_or_blank_witness:
  "snd (upload_file std_pandas (request_for ''q.csv'' blank_quantity) [])
     = [] @ [blank_quantity_upload]
   \<and> file_frame (request_for ''q.csv'' blank_quantity) = Some blank_quantity
   \<and> rectangular blank_quantity 2 \<and> length_preserving std_pandas
   \<and> list_all (\<lambda>p. p \<noteq> Bad) (to_numeric std_pandas [Num 3, Blank])
   \<and> map (\<lambda>r. map_of r ''quantity'') (data blank_quantity_upload) = [Some (Num 3), Some (Num 0)]"
proof -
  have f: "file_frame (request_for ''q.csv'' blank_quantity) = Some blank_quantity"
    by (rule file_frame_request_for)
  have r: "rectangular blank_quantity 2" by code_simp
  have g: "getitem (standardize_column_names (strip_columns blank_quantity)) ''quantity''
             = Series [Num 3, Blank]" by code_simp
  have v: "map (\<lambda>p. Some (Num (case p of Val v \<Rightarrow> v | _ \<Rightarrow> fill_zero std_pandas)))
             (to_numeric std_pandas [Num 3, Blank]) = [Some (Num 3), Some (Num 0)]" by code_simp
  note q = quantity_parsed_or_blank [OF upload_blank_quantity f r length_preserving_std_pandas,
      unfolded g item.case v]
  from q have "list_all (\<lambda>p. p \<noteq> Bad) (to_numeric std_pandas [Num 3, Blank]) \<and>
     map (\<lambda>r. map_of r ''quantity'') (data blank_quantity_upload) = [Some (Num 3), Some (Num 0)]"
    by (auto simp: list_all_iff)
  with upload_blank_quantity f r length_preserving_std_pandas show ?thesis by blast
qed

end
